theory Spec2Isabelle
  imports Complex_Main "HOL-Library.Multiset" "HOL-Library.Sublist"
begin

section \<open>The hybrid recommendation engine of cinematch\<close>

text \<open>
  A shallow embedding of \<^verbatim>\<open>src/backend/services/recommendationEngine.js\<close> (the class
  \<^verbatim>\<open>HybridRecommendationEngine\<close>, first version in the file).

  Conventions of the embedding:
  \<^item> a JavaScript number is a \<^typ>\<open>real\<close>: arithmetic is exact, there is no rounding,
    no NaN and no infinity; identifiers, counts and millisecond timestamps are integers;
  \<^item> a numeric field that the source reads through \<^verbatim>\<open>x || 0\<close> or tests with
    \<^verbatim>\<open>!x\<close> is a plain number: an absent field and the number 0 take the same branch
    there, so absence is written as 0; in the same way an absent array that the source
    reads through \<^verbatim>\<open>xs || []\<close> or \<^verbatim>\<open>Array.isArray(xs) ? xs : []\<close> is the empty list;
  \<^item> a field whose absence the source distinguishes from every number is an \<open>option\<close>;
  \<^item> a JavaScript object used as a dictionary is an association list in insertion order
    (the order \<^verbatim>\<open>Object.keys\<close> and \<^verbatim>\<open>Object.entries\<close> enumerate string keys);
  \<^item> \<^verbatim>\<open>Array.prototype.sort\<close> is stable, so sorting by a comparator \<^verbatim>\<open>b.k - a.k\<close>
    is the stable insertion sort \<^const>\<open>sort_key\<close> on the key \<open>- k\<close>;
  \<^item> every \<^verbatim>\<open>throw\<close> is a value \<open>Inl e\<close> of a sum type and every \<^verbatim>\<open>catch\<close> a case
    distinction on it.
\<close>

subsection \<open>Constants\<close>

definition DEFAULT_SEQUENCE_WINDOW :: nat where
  "DEFAULT_SEQUENCE_WINDOW = 20"

definition DEFAULT_SESSION_TIMEOUT :: int where
  "DEFAULT_SESSION_TIMEOUT = 30 * 60 * 1000"

definition RECENCY_HALF_LIFE_HOURS :: real where
  "RECENCY_HALF_LIFE_HOURS = 24"

subsection \<open>Data model\<close>

text \<open>The optional \<^verbatim>\<open>metadata\<close> object of an action; an absent object has every field absent.\<close>

record metadata =
  md_genres :: "string list"
  md_directors :: "string list"
  md_actors :: "string list"
  md_runtime :: real
  md_releaseYear :: real

record action =
  a_userId :: string
  a_movieId :: int
  actionType :: string
  a_value :: real
  timestamp :: int
  a_metadata :: metadata

record movie =
  m_id :: int
  genres :: "string list"
  directors :: "string list"
  actors :: "string list"
  releaseYear :: "real option"
  runtime :: real
  averageRating :: real
  m_ratingCount :: real
  popularity :: real

record weights =
  content :: real
  collaborative :: real
  sequence :: real
  rule :: real

type_synonym prefMap = "(string \<times> real) list"

record runtimePref =
  rt_min :: real
  rt_max :: real
  rt_ideal :: real

record yearPref =
  yr_min :: real
  yr_max :: real

record preferences =
  p_genres :: "prefMap option"
  p_directors :: prefMap
  p_actors :: prefMap
  runtimePreference :: "runtimePref option"
  yearPreference :: "yearPref option"
  p_avgRating :: real
  p_ratingVariance :: real
  ratingThreshold :: real

text \<open>
  The profile object. The degenerate profile \<^verbatim>\<open>{ userId, ratingCount: 0, recentActions: [] }\<close>
  of the error path has no \<^verbatim>\<open>preferences\<close>; its other absent fields are never read or are
  read through \<^verbatim>\<open>|| 0\<close>.
\<close>

record userProfile =
  userId :: string
  ratingCount :: nat
  avgRating :: real
  ratingVariance :: real
  timeActive :: int
  engagement :: real
  lastActive :: "int option"
  sessionDepth :: real
  recencyScore :: real
  recentActions :: "action list"
  preferences :: "preferences option"

subsection \<open>Shared numerics\<close>

definition normalizeScore :: "real \<Rightarrow> real" where
  "normalizeScore score =
     (if score < 1 then 0 else if score > 10 then 1 else (score - 1) / 9)"

definition normalizeRatingSignal :: "real \<Rightarrow> real" where
  "normalizeRatingSignal v = max (- 1) (min 1 ((v - 5.5) / 4.5))"

definition calculatePopularityScore :: "movie \<Rightarrow> real" where
  "calculatePopularityScore m =
     (let popularityScore = popularity m / 100;
          ratingScore = averageRating m / 10;
          ratingCountScore = ln (m_ratingCount m + 1) / ln 10000
      in popularityScore * 0.4 + ratingScore * 0.4 + ratingCountScore * 0.2)"

text \<open>\<^verbatim>\<open>switch (actionType)\<close>; \<^verbatim>\<open>value || 5\<close> takes 5 for an absent value and for 0.\<close>

definition actionTypeBoost :: "string \<Rightarrow> real \<Rightarrow> real" where
  "actionTypeBoost ty v =
     (if ty = ''watchTime'' then min 1.2 (v / 60)
      else if ty = ''rate'' then (if v = 0 then 5 else v) / 10
      else if ty = ''add_watchlist'' then 0.7
      else if ty = ''view'' then 0.5
      else 0.4)"

subsection \<open>Weight policy\<close>

text \<open>
  \<^verbatim>\<open>Object.values(weights)\<close> enumerates content, collaborative, sequence, rule;
  \<^verbatim>\<open>sum || 1\<close> replaces a zero sum by 1.
\<close>

definition normalizeWeights :: "weights \<Rightarrow> weights" where
  "normalizeWeights w =
     (let s = 0 + content w + collaborative w + sequence w + rule w;
          total = (if s = 0 then 1 else s)
      in \<lparr> content = max 0 (content w / total),
           collaborative = max 0 (collaborative w / total),
           sequence = max 0 (sequence w / total),
           rule = max 0 (rule w / total) \<rparr>)"

definition calculateWeights :: "userProfile \<Rightarrow> weights" where
  "calculateWeights p =
     (if ratingCount p < 5 then
        normalizeWeights \<lparr> content = 0.4, collaborative = 0.1,
                           sequence = 0.2 + recencyScore p * 0.1, rule = 0.3 \<rparr>
      else if ratingCount p < 25 then
        normalizeWeights \<lparr> content = 0.35, collaborative = 0.25,
                           sequence = 0.25 + sessionDepth p * 0.05, rule = 0.15 \<rparr>
      else
        normalizeWeights \<lparr> content = 0.25, collaborative = 0.45,
                           sequence = 0.2 + recencyScore p * 0.1, rule = 0.1 \<rparr>)"

subsection \<open>List helpers\<close>

text \<open>\<^verbatim>\<open>Math.max(...xs)\<close> and \<^verbatim>\<open>Math.min(...xs)\<close>; the source calls them on non-empty arrays only.\<close>

fun maxList :: "'a::linorder list \<Rightarrow> 'a" where
  "maxList (x # xs) = fold max xs x"
| "maxList [] = undefined"

fun minList :: "'a::linorder list \<Rightarrow> 'a" where
  "minList (x # xs) = fold min xs x"
| "minList [] = undefined"

text \<open>\<^verbatim>\<open>xs.slice(0, c)\<close>: a negative end counts from the end of the array.\<close>

definition slice0 :: "int \<Rightarrow> 'a list \<Rightarrow> 'a list" where
  "slice0 c xs = (if c < 0 then take (nat (int (length xs) + c)) xs else take (nat c) xs)"

text \<open>\<^verbatim>\<open>m[k] = (m[k] || 0) + w\<close> on a dictionary: a new key is appended.\<close>

fun addTo :: "string \<Rightarrow> real \<Rightarrow> prefMap \<Rightarrow> prefMap" where
  "addTo k w [] = [(k, 0 + w)]"
| "addTo k w ((k', v) # m) = (if k' = k then (k', v + w) # m else (k', v) # addTo k w m)"

subsection \<open>Sessions and recency\<close>

fun sessionLoop ::
  "int \<Rightarrow> action list \<Rightarrow> action list list \<Rightarrow> action list \<Rightarrow> action list list \<times> action list"
where
  "sessionLoop sessionTimeout [] sessions currentSession = (sessions, currentSession)"
| "sessionLoop sessionTimeout (a # as) sessions currentSession =
     (if currentSession = [] then sessionLoop sessionTimeout as sessions (currentSession @ [a])
      else if timestamp a - timestamp (last currentSession) \<le> sessionTimeout
      then sessionLoop sessionTimeout as sessions (currentSession @ [a])
      else sessionLoop sessionTimeout as (sessions @ [currentSession]) [a])"

definition groupActionsBySessions :: "action list \<Rightarrow> int \<Rightarrow> action list list" where
  "groupActionsBySessions actions sessionTimeout =
     (case sessionLoop sessionTimeout (sort_key timestamp actions) [] [] of
        (sessions, currentSession) \<Rightarrow>
          if currentSession \<noteq> [] then sessions @ [currentSession] else sessions)"

text \<open>\<open>now\<close> is \<^verbatim>\<open>Date.now()\<close> in milliseconds.\<close>

definition calculateRecencyScore :: "int \<Rightarrow> action list \<Rightarrow> real" where
  "calculateRecencyScore now actions =
     (if actions = [] then 0
      else let mostRecent = maxList (map timestamp actions);
               hoursSince = real_of_int (now - mostRecent) / (1000 * 60 * 60);
               score = exp (- ln 2 * (hoursSince / RECENCY_HALF_LIFE_HOURS))
           in min 1 (max 0 score))"

definition calculateRecencyWeight :: "int \<Rightarrow> int \<Rightarrow> nat \<Rightarrow> real" where
  "calculateRecencyWeight now ts index =
     (let hoursSince = real_of_int (now - ts) / (1000 * 60 * 60);
          decay = exp (- ln 2 * (hoursSince / RECENCY_HALF_LIFE_HOURS));
          positionBoost = 1 - min 0.3 (real index / (real DEFAULT_SEQUENCE_WINDOW * 2))
      in decay * positionBoost)"

subsection \<open>Profile builder\<close>

definition calculateRatingVariance :: "action list \<Rightarrow> real" where
  "calculateRatingVariance ratings =
     (if length ratings < 2 then 0
      else let mean = sum_list (map a_value ratings) / real (length ratings)
           in sum_list (map (\<lambda>r. (a_value r - mean)\<^sup>2) ratings) / real (length ratings))"

text \<open>A signal is the pair of \<^verbatim>\<open>value\<close> and \<^verbatim>\<open>weight\<close>.\<close>

definition calculateRuntimePreference :: "(real \<times> real) list \<Rightarrow> runtimePref" where
  "calculateRuntimePreference runtimeSignals =
     (if runtimeSignals = [] then \<lparr> rt_min = 70, rt_max = 190, rt_ideal = 120 \<rparr>
      else let weightedSum = sum_list (map (\<lambda>(v, w). v * w) runtimeSignals);
               s = sum_list (map snd runtimeSignals);
               totalWeight = (if s = 0 then 1 else s);
               ideal = weightedSum / totalWeight
           in \<lparr> rt_min = max 50 (ideal - 40), rt_max = ideal + 50, rt_ideal = ideal \<rparr>)"

text \<open>\<open>year\<close> is \<^verbatim>\<open>new Date().getFullYear()\<close>.\<close>

definition calculateYearPreference :: "int \<Rightarrow> (real \<times> real) list \<Rightarrow> yearPref" where
  "calculateYearPreference year yearSignals =
     (if yearSignals = [] then \<lparr> yr_min = 1980, yr_max = real_of_int year \<rparr>
      else let weightedSum = sum_list (map (\<lambda>(v, w). v * w) yearSignals);
               s = sum_list (map snd yearSignals);
               totalWeight = (if s = 0 then 1 else s);
               ideal = weightedSum / totalWeight
           in \<lparr> yr_min = max 1950 (real_of_int \<lfloor>ideal - 15\<rfloor>),
                yr_max = min (real_of_int year) (real_of_int \<lceil>ideal + 15\<rceil>) \<rparr>)"

record prefAcc =
  genrePreferences :: prefMap
  directorPreferences :: prefMap
  actorPreferences :: prefMap
  genreCounts :: prefMap
  directorCounts :: prefMap
  actorCounts :: prefMap
  runtimeSignals :: "(real \<times> real) list"
  yearSignals :: "(real \<times> real) list"

text \<open>The body of \<^verbatim>\<open>ratings.forEach\<close> in \<^verbatim>\<open>calculateUserPreferences\<close>.\<close>

definition accumulateRating :: "action \<Rightarrow> prefAcc \<Rightarrow> prefAcc" where
  "accumulateRating rating acc =
     (let ratingSignal = normalizeRatingSignal (a_value rating);
          md = a_metadata rating;
          acc1 = acc \<lparr>
            genrePreferences := fold (\<lambda>g. addTo g ratingSignal) (md_genres md) (genrePreferences acc),
            genreCounts := fold (\<lambda>g. addTo g 1) (md_genres md) (genreCounts acc),
            directorPreferences :=
              fold (\<lambda>d. addTo d ratingSignal) (md_directors md) (directorPreferences acc),
            directorCounts := fold (\<lambda>d. addTo d 1) (md_directors md) (directorCounts acc),
            actorPreferences := fold (\<lambda>a. addTo a ratingSignal) (md_actors md) (actorPreferences acc),
            actorCounts := fold (\<lambda>a. addTo a 1) (md_actors md) (actorCounts acc) \<rparr>;
          acc2 = (if md_runtime md \<noteq> 0 \<and> ratingSignal > 0
                  then acc1 \<lparr> runtimeSignals := runtimeSignals acc1 @ [(md_runtime md, ratingSignal)] \<rparr>
                  else acc1)
      in if md_releaseYear md \<noteq> 0 \<and> ratingSignal > 0
         then acc2 \<lparr> yearSignals := yearSignals acc2 @ [(md_releaseYear md, ratingSignal)] \<rparr>
         else acc2)"

text \<open>\<^verbatim>\<open>counts[key] || 1\<close>: an absent or zero count divides by 1.\<close>

definition normalizePreferenceMap :: "prefMap \<Rightarrow> prefMap \<Rightarrow> prefMap" where
  "normalizePreferenceMap prefs counts =
     map (\<lambda>(key, v). (key, v / (case map_of counts key of None \<Rightarrow> 1
                                   | Some c \<Rightarrow> if c = 0 then 1 else c))) prefs"

definition calculateUserPreferences :: "int \<Rightarrow> action list \<Rightarrow> preferences" where
  "calculateUserPreferences year ratings =
     (let acc = fold accumulateRating ratings
                  \<lparr> genrePreferences = [], directorPreferences = [], actorPreferences = [],
                    genreCounts = [], directorCounts = [], actorCounts = [],
                    runtimeSignals = [], yearSignals = [] \<rparr>
      in \<lparr> p_genres = Some (normalizePreferenceMap (genrePreferences acc) (genreCounts acc)),
           p_directors = normalizePreferenceMap (directorPreferences acc) (directorCounts acc),
           p_actors = normalizePreferenceMap (actorPreferences acc) (actorCounts acc),
           runtimePreference = Some (calculateRuntimePreference (runtimeSignals acc)),
           yearPreference = Some (calculateYearPreference year (yearSignals acc)),
           p_avgRating = sum_list (map a_value ratings)
                          / (if ratings = [] then 1 else real (length ratings)),
           p_ratingVariance = calculateRatingVariance ratings,
           ratingThreshold = 6.5 \<rparr>)"

subsection \<open>External collaborators\<close>

text \<open>An exception thrown by a collaborator, with its message.\<close>

datatype error = Thrown string

record prediction =
  pr_movieId :: int
  pr_score :: real

text \<open>
  The tracking service, the matrix-factorisation model, the Redis connection and the clock.
  Reads do not change any state the engine sees, so they are functions; each may throw.
  \<open>redisDown\<close> makes every Redis command throw; \<open>dateNow\<close> is \<^verbatim>\<open>Date.now()\<close> and
  \<open>getFullYear\<close> is \<^verbatim>\<open>new Date().getFullYear()\<close>, both constant during one request.
\<close>

record services =
  getUserActions :: "string \<Rightarrow> nat \<Rightarrow> string option \<Rightarrow> error + action list"
  getRecentActions :: "string \<Rightarrow> error + action list"
  predict :: "string \<Rightarrow> int list \<Rightarrow> error + prediction list"
  redisDown :: bool
  dateNow :: int
  getFullYear :: int

text \<open>The \<^verbatim>\<open>catch\<close> branch of \<^verbatim>\<open>getUserProfile\<close>.\<close>

definition degenerateProfile :: "string \<Rightarrow> userProfile" where
  "degenerateProfile uid =
     \<lparr> userId = uid, ratingCount = 0, avgRating = 0, ratingVariance = 0, timeActive = 0,
       engagement = 0, lastActive = None, sessionDepth = 0, recencyScore = 0,
       recentActions = [], preferences = None \<rparr>"

definition getUserProfile :: "services \<Rightarrow> string \<Rightarrow> userProfile" where
  "getUserProfile sv uid =
     (case getUserActions sv uid 1000 (Some ''rate'') of
        Inl e \<Rightarrow> degenerateProfile uid
      | Inr ratings \<Rightarrow>
     (case getRecentActions sv uid of
        Inl e \<Rightarrow> degenerateProfile uid
      | Inr recent \<Rightarrow>
     (let firstRating = (if ratings \<noteq> [] then minList (map timestamp ratings) else dateNow sv)
      in
     (case getUserActions sv uid 1000 None of
        Inl e \<Rightarrow> degenerateProfile uid
      | Inr allActions \<Rightarrow>
     (let sessions = groupActionsBySessions allActions DEFAULT_SESSION_TIMEOUT;
          prefs = calculateUserPreferences (getFullYear sv) ratings
      in \<lparr> userId = uid,
           ratingCount = length ratings,
           avgRating = (if ratings \<noteq> []
                        then sum_list (map a_value ratings) / real (length ratings) else 0),
           ratingVariance = p_ratingVariance prefs,
           timeActive = (dateNow sv - firstRating) div (1000 * 60 * 60 * 24),
           engagement = (if sessions \<noteq> []
                         then real (length allActions) / real (length sessions) else 0),
           lastActive = (if ratings \<noteq> [] then Some (maxList (map timestamp ratings)) else None),
           sessionDepth = (if sessions \<noteq> []
                           then min 1 (real (length (last sessions)) / 10) else 0),
           recencyScore = calculateRecencyScore (dateNow sv) recent,
           recentActions = take DEFAULT_SEQUENCE_WINDOW recent,
           preferences = Some prefs \<rparr>)))))"

subsection \<open>Score records and the popularity fallback\<close>

text \<open>
  A scorer's record. \<open>s_movie\<close> is absent when \<^verbatim>\<open>availableMovies.find\<close> finds no movie for
  a predicted id.
\<close>

record scoreRecord =
  s_movieId :: int
  s_movie :: "movie option"
  s_score :: real
  s_source :: string

definition popularityFallback :: "movie list \<Rightarrow> string \<Rightarrow> scoreRecord list" where
  "popularityFallback movies src =
     map (\<lambda>m. \<lparr> s_movieId = m_id m, s_movie = Some m,
                 s_score = calculatePopularityScore m, s_source = src \<rparr>) movies"

subsection \<open>Content scorer\<close>

text \<open>
  \<^verbatim>\<open>preferenceMap[item]\<close> is the lookup in the dictionary; \<^verbatim>\<open>Object.keys(m).length === 0\<close>
  is emptiness of the association list.
\<close>

definition calculatePreferenceScore :: "string list \<Rightarrow> prefMap \<Rightarrow> bool \<Rightarrow> real" where
  "calculatePreferenceScore items preferenceMap useMax =
     (if items = [] \<or> preferenceMap = [] then 0.5
      else let scores = List.map_filter (map_of preferenceMap) items
           in if scores = [] then 0.45
              else let adjustedScores = map (\<lambda>s. (s + 1) / 2) scores
                   in if useMax then maxList adjustedScores
                      else sum_list adjustedScores / real (length adjustedScores))"

definition calculateRuntimeScore :: "movie \<Rightarrow> runtimePref option \<Rightarrow> real" where
  "calculateRuntimeScore m rtPreference =
     (case rtPreference of
        None \<Rightarrow> 0.5
      | Some rp \<Rightarrow>
          if runtime m = 0 then 0.5
          else if runtime m < rt_min rp \<or> runtime m > rt_max rp then 0.2
          else let distance = \<bar>runtime m - rt_ideal rp\<bar>;
                   maxDistance = max (rt_ideal rp - rt_min rp) (rt_max rp - rt_ideal rp)
               in 1 - distance / (if maxDistance = 0 then 1 else maxDistance))"

definition calculateYearScore :: "movie \<Rightarrow> yearPref option \<Rightarrow> real" where
  "calculateYearScore m yrPreference =
     (case yrPreference of
        None \<Rightarrow> 0.5
      | Some yp \<Rightarrow>
          (case releaseYear m of
             None \<Rightarrow> 0.5
           | Some y \<Rightarrow>
               if y = 0 then 0.5
               else if y < yr_min yp \<or> y > yr_max yp then 0.3
               else 1))"

text \<open>
  The caller passes a defined preferences object, so the \<^verbatim>\<open>Math.random\<close> branch for an absent
  one is not part of the model. An absent genre dictionary scores like an empty one.
\<close>

definition calculateContentSimilarity :: "movie \<Rightarrow> preferences \<Rightarrow> real" where
  "calculateContentSimilarity m userPreferences =
     (let genreScore = calculatePreferenceScore (genres m)
                         (case p_genres userPreferences of None \<Rightarrow> [] | Some g \<Rightarrow> g) False;
          directorScore = calculatePreferenceScore (directors m) (p_directors userPreferences) True;
          actorScore = calculatePreferenceScore (actors m) (p_actors userPreferences) False;
          runtimeScore = calculateRuntimeScore m (runtimePreference userPreferences);
          yearScore = calculateYearScore m (yearPreference userPreferences);
          score = genreScore * 0.4 + directorScore * 0.2 + actorScore * 0.2
                    + runtimeScore * 0.1 + yearScore * 0.1
      in normalizeScore (score * 10))"

definition contentBasedRecommendation :: "movie list \<Rightarrow> userProfile \<Rightarrow> scoreRecord list" where
  "contentBasedRecommendation availableMovies userProfile =
     (case preferences userProfile of
        None \<Rightarrow> popularityFallback availableMovies ''content-cold''
      | Some prefs \<Rightarrow>
          if ratingCount userProfile = 0 then popularityFallback availableMovies ''content-cold''
          else map (\<lambda>m. \<lparr> s_movieId = m_id m, s_movie = Some m,
                           s_score = calculateContentSimilarity m prefs,
                           s_source = ''content-based'' \<rparr>) availableMovies)"

subsection \<open>Collaborative scorer\<close>

record similarUser =
  su_userId :: string
  similarity :: real

text \<open>Both branches of the \<^verbatim>\<open>try\<close> and the \<^verbatim>\<open>catch\<close> return the empty list.\<close>

definition findSimilarUsers :: "services \<Rightarrow> string \<Rightarrow> similarUser list" where
  "findSimilarUsers sv uid =
     (case getUserActions sv uid 1000 (Some ''rate'') of
        Inl e \<Rightarrow> []
      | Inr userRatings \<Rightarrow> if userRatings = [] then [] else [])"

text \<open>The \<^verbatim>\<open>for\<close> loop over the similar users, on the pair of \<^verbatim>\<open>totalWeight\<close> and \<^verbatim>\<open>weightedSum\<close>.\<close>

fun collaborativeLoop ::
  "services \<Rightarrow> int \<Rightarrow> similarUser list \<Rightarrow> real \<times> real \<Rightarrow> error + real \<times> real"
where
  "collaborativeLoop sv mid [] acc = Inr acc"
| "collaborativeLoop sv mid (u # us) (totalWeight, weightedSum) =
     (case getUserActions sv (su_userId u) 1000 (Some ''rate'') of
        Inl e \<Rightarrow> Inl e
      | Inr userActions \<Rightarrow>
          (case List.find (\<lambda>a. a_movieId a = mid) userActions of
             None \<Rightarrow> collaborativeLoop sv mid us (totalWeight, weightedSum)
           | Some movieRating \<Rightarrow>
               collaborativeLoop sv mid us
                 (totalWeight + similarity u, weightedSum + a_value movieRating * similarity u)))"

definition calculateCollaborativeScore ::
  "services \<Rightarrow> int \<Rightarrow> similarUser list \<Rightarrow> error + real"
where
  "calculateCollaborativeScore sv mid similarUsers =
     (if similarUsers = [] then Inr 0
      else case collaborativeLoop sv mid similarUsers (0, 0) of
             Inl e \<Rightarrow> Inl e
           | Inr (totalWeight, weightedSum) \<Rightarrow>
               Inr (if totalWeight > 0 then normalizeScore (weightedSum / totalWeight) else 0))"

text \<open>\<^verbatim>\<open>Promise.all\<close> over the movies: the first rejection rejects the whole.\<close>

fun collaborativeScoresAll ::
  "services \<Rightarrow> similarUser list \<Rightarrow> movie list \<Rightarrow> error + scoreRecord list"
where
  "collaborativeScoresAll sv similarUsers [] = Inr []"
| "collaborativeScoresAll sv similarUsers (m # ms) =
     (case calculateCollaborativeScore sv (m_id m) similarUsers of
        Inl e \<Rightarrow> Inl e
      | Inr sc \<Rightarrow>
          (case collaborativeScoresAll sv similarUsers ms of
             Inl e \<Rightarrow> Inl e
           | Inr rest \<Rightarrow>
               Inr (\<lparr> s_movieId = m_id m, s_movie = Some m, s_score = sc,
                      s_source = ''collaborative-user'' \<rparr> # rest)))"

definition userBasedCollaborativeFiltering ::
  "services \<Rightarrow> string \<Rightarrow> movie list \<Rightarrow> scoreRecord list"
where
  "userBasedCollaborativeFiltering sv uid availableMovies =
     (let similarUsers = findSimilarUsers sv uid
      in if similarUsers = [] then popularityFallback availableMovies ''collaborative-cold''
         else case collaborativeScoresAll sv similarUsers availableMovies of
                Inl e \<Rightarrow> []
              | Inr collaborativeScores \<Rightarrow> collaborativeScores)"

definition collaborativeFiltering :: "services \<Rightarrow> string \<Rightarrow> movie list \<Rightarrow> scoreRecord list" where
  "collaborativeFiltering sv uid availableMovies =
     (case predict sv uid (map m_id availableMovies) of
        Inl e \<Rightarrow> userBasedCollaborativeFiltering sv uid availableMovies
      | Inr predictions \<Rightarrow>
          if predictions = [] then userBasedCollaborativeFiltering sv uid availableMovies
          else map (\<lambda>pred. \<lparr> s_movieId = pr_movieId pred,
                              s_movie = List.find (\<lambda>m. m_id m = pr_movieId pred) availableMovies,
                              s_score = normalizeScore (pr_score pred),
                              s_source = ''collaborative-matrix'' \<rparr>) predictions)"

subsection \<open>Sequence scorer\<close>

record signals =
  sg_genres :: prefMap
  sg_directors :: prefMap
  sg_actors :: prefMap
  totalWeight :: real

text \<open>The body of \<^verbatim>\<open>actions.forEach((action, index) => ...)\<close>.\<close>

definition addSignal :: "int \<Rightarrow> nat \<times> action \<Rightarrow> signals \<Rightarrow> signals" where
  "addSignal now ia sg =
     (case ia of (index, a) \<Rightarrow>
        let md = a_metadata a;
            recencyWeight = calculateRecencyWeight now (timestamp a) index;
            actionWeight = recencyWeight * actionTypeBoost (actionType a) (a_value a)
        in \<lparr> sg_genres = fold (\<lambda>g. addTo g actionWeight) (md_genres md) (sg_genres sg),
             sg_directors = fold (\<lambda>d. addTo d actionWeight) (md_directors md) (sg_directors sg),
             sg_actors = fold (\<lambda>c. addTo c actionWeight) (md_actors md) (sg_actors sg),
             totalWeight = totalWeight sg + actionWeight \<rparr>)"

definition buildSessionSignals :: "int \<Rightarrow> action list \<Rightarrow> signals" where
  "buildSessionSignals now as =
     fold (addSignal now) (enumerate 0 as)
       \<lparr> sg_genres = [], sg_directors = [], sg_actors = [], totalWeight = 0 \<rparr>"

definition calculateSessionSimilarity :: "movie \<Rightarrow> signals \<Rightarrow> real" where
  "calculateSessionSimilarity m sessionSignals =
     (if totalWeight sessionSignals = 0 then 0.4
      else let genreScore = calculatePreferenceScore (genres m) (sg_genres sessionSignals) False;
               directorScore =
                 calculatePreferenceScore (directors m) (sg_directors sessionSignals) True;
               actorScore = calculatePreferenceScore (actors m) (sg_actors sessionSignals) False;
               score = genreScore * 0.5 + directorScore * 0.3 + actorScore * 0.2
           in normalizeScore (score * 10))"

definition sequenceBasedRecommendation ::
  "int \<Rightarrow> movie list \<Rightarrow> userProfile \<Rightarrow> scoreRecord list"
where
  "sequenceBasedRecommendation now availableMovies userProfile =
     (if recentActions userProfile = [] then popularityFallback availableMovies ''sequence-cold''
      else let recentSignals = buildSessionSignals now (recentActions userProfile)
           in map (\<lambda>m. \<lparr> s_movieId = m_id m, s_movie = Some m,
                            s_score = calculateSessionSimilarity m recentSignals,
                            s_source = ''sequence'' \<rparr>) availableMovies)"

subsection \<open>Rule scorer\<close>

record rulePreferences =
  preferredGenres :: "string list"
  minRating :: real
  yearRange :: "yearPref option"
  runtimeRange :: "runtimePref option"

text \<open>
  \<^verbatim>\<open>!preferences || !preferences.genres\<close>: an object is truthy, also the empty one, so only
  an absent dictionary gives \<^verbatim>\<open>null\<close>. \<^verbatim>\<open>ratingThreshold || 6.5\<close> replaces 0 by 6.5.
\<close>

definition extractRulePreferences :: "userProfile \<Rightarrow> rulePreferences option" where
  "extractRulePreferences userProfile =
     (case preferences userProfile of
        None \<Rightarrow> None
      | Some prefs \<Rightarrow>
          (case p_genres prefs of
             None \<Rightarrow> None
           | Some g \<Rightarrow>
               Some \<lparr> preferredGenres = map fst (take 3 (sort_key (\<lambda>(genre, v). - v) g)),
                      minRating = (if ratingThreshold prefs = 0 then 6.5 else ratingThreshold prefs),
                      yearRange = yearPreference prefs,
                      runtimeRange = runtimePreference prefs \<rparr>))"

definition calculateRuleScore :: "movie \<Rightarrow> rulePreferences \<Rightarrow> real" where
  "calculateRuleScore m rp =
     (let score0 = 0.4;
          score1 = (if preferredGenres rp \<noteq> []
                    then let genreMatches = filter (\<lambda>g. g \<in> set (preferredGenres rp)) (genres m)
                         in score0 + min 0.4 (real (length genreMatches) * 0.15)
                    else score0);
          score2 = (case yearRange rp of
                      None \<Rightarrow> score1
                    | Some yr \<Rightarrow>
                        (case releaseYear m of
                           None \<Rightarrow> score1
                         | Some y \<Rightarrow> if y \<ge> yr_min yr \<and> y \<le> yr_max yr then score1 + 0.1
                                     else score1));
          score3 = (case runtimeRange rp of
                      None \<Rightarrow> score2
                    | Some rr \<Rightarrow>
                        if runtime m \<noteq> 0 \<and> runtime m \<ge> rt_min rr \<and> runtime m \<le> rt_max rr
                        then score2 + 0.1 else score2);
          score4 = (if averageRating m \<ge> minRating rp then score3 + 0.1 else score3)
      in normalizeScore (score4 * 10))"

definition ruleBasedRecommendation :: "movie list \<Rightarrow> userProfile \<Rightarrow> scoreRecord list" where
  "ruleBasedRecommendation availableMovies userProfile =
     (case extractRulePreferences userProfile of
        None \<Rightarrow> popularityFallback availableMovies ''rule-cold''
      | Some rp \<Rightarrow>
          map (\<lambda>m. \<lparr> s_movieId = m_id m, s_movie = Some m,
                      s_score = calculateRuleScore m rp,
                      s_source = ''rule-based'' \<rparr>) availableMovies)"

subsection \<open>Fusion\<close>

text \<open>
  The four display strings that \<^verbatim>\<open>generateExplanations\<close> pushes, in the order of its four tests.
\<close>

datatype reason = StrongContent | SimilarUsers | SessionFlow | OnboardingMatch

text \<open>A value of \<^verbatim>\<open>movieScoreMap\<close>, and the record that \<^verbatim>\<open>combineScores\<close> returns for it.\<close>

record scoreEntry =
  h_movieId :: int
  h_movie :: movie
  contentScore :: real
  collaborativeScore :: real
  sequenceScore :: real
  ruleScore :: real
  explanation :: "reason list option"

record hybridRecord = scoreEntry +
  score :: real
  h_weights :: weights
  h_source :: string

datatype scoreKey = ContentKey | CollaborativeKey | SequenceKey | RuleKey

fun setScore :: "scoreKey \<Rightarrow> real \<Rightarrow> scoreEntry \<Rightarrow> scoreEntry" where
  "setScore ContentKey v e = e \<lparr> contentScore := v \<rparr>"
| "setScore CollaborativeKey v e = e \<lparr> collaborativeScore := v \<rparr>"
| "setScore SequenceKey v e = e \<lparr> sequenceScore := v \<rparr>"
| "setScore RuleKey v e = e \<lparr> ruleScore := v \<rparr>"

text \<open>
  The \<^verbatim>\<open>Map\<close> keeps its keys in insertion order. \<open>upsertScore k fresh f\<close> is
  \<^verbatim>\<open>if (!map.has(k)) map.set(k, fresh)\<close> followed by the update \<open>f\<close> of \<^verbatim>\<open>map.get(k)\<close>.
\<close>

fun upsertScore ::
  "int \<Rightarrow> scoreEntry \<Rightarrow> (scoreEntry \<Rightarrow> scoreEntry) \<Rightarrow> (int \<times> scoreEntry) list
     \<Rightarrow> (int \<times> scoreEntry) list"
where
  "upsertScore k fresh f [] = [(k, f fresh)]"
| "upsertScore k fresh f ((k', e) # m) =
     (if k' = k then (k', f e) # m else (k', e) # upsertScore k fresh f m)"

definition ingestItem ::
  "bool \<Rightarrow> scoreKey \<Rightarrow> scoreRecord \<Rightarrow> (int \<times> scoreEntry) list \<Rightarrow> (int \<times> scoreEntry) list"
where
  "ingestItem includeExplanations scoreKey item movieScoreMap =
     (case s_movie item of
        None \<Rightarrow> movieScoreMap
      | Some mv \<Rightarrow>
          upsertScore (s_movieId item)
            \<lparr> h_movieId = s_movieId item, h_movie = mv, contentScore = 0,
              collaborativeScore = 0, sequenceScore = 0, ruleScore = 0,
              explanation = (if includeExplanations then Some [] else None) \<rparr>
            (setScore scoreKey (s_score item)) movieScoreMap)"

definition ingestScores ::
  "bool \<Rightarrow> scoreRecord list \<Rightarrow> scoreKey \<Rightarrow> (int \<times> scoreEntry) list \<Rightarrow> (int \<times> scoreEntry) list"
where
  "ingestScores includeExplanations scores scoreKey movieScoreMap =
     fold (ingestItem includeExplanations scoreKey) scores movieScoreMap"

definition generateExplanations :: "scoreEntry \<Rightarrow> weights \<Rightarrow> reason list" where
  "generateExplanations item w =
     (if contentScore item > 0.7 \<and> content w > 0.2 then [StrongContent] else [])
     @ (if collaborativeScore item > 0.7 \<and> collaborative w > 0.2 then [SimilarUsers] else [])
     @ (if sequenceScore item > 0.7 \<and> sequence w > 0.2 then [SessionFlow] else [])
     @ (if ruleScore item > 0.6 \<and> rule w > 0.1 then [OnboardingMatch] else [])"

definition toHybrid :: "weights \<Rightarrow> bool \<Rightarrow> scoreEntry \<Rightarrow> hybridRecord" where
  "toHybrid w includeExplanations item =
     (let hybridScore = contentScore item * content w
                        + collaborativeScore item * collaborative w
                        + sequenceScore item * sequence w
                        + ruleScore item * rule w
      in \<lparr> h_movieId = h_movieId item, h_movie = h_movie item,
           contentScore = contentScore item, collaborativeScore = collaborativeScore item,
           sequenceScore = sequenceScore item, ruleScore = ruleScore item,
           explanation = (if includeExplanations \<and> explanation item \<noteq> None
                          then Some (generateExplanations item w) else explanation item),
           score = hybridScore, h_weights = w, h_source = ''hybrid'' \<rparr>)"

definition combineScores ::
  "scoreRecord list \<Rightarrow> scoreRecord list \<Rightarrow> scoreRecord list \<Rightarrow> scoreRecord list
     \<Rightarrow> weights \<Rightarrow> bool \<Rightarrow> hybridRecord list"
where
  "combineScores contentScores collaborativeScores sequenceScores ruleScores w includeExplanations =
     (let m1 = ingestScores includeExplanations contentScores ContentKey [];
          m2 = ingestScores includeExplanations collaborativeScores CollaborativeKey m1;
          m3 = ingestScores includeExplanations sequenceScores SequenceKey m2;
          m4 = ingestScores includeExplanations ruleScores RuleKey m3
      in map (toHybrid w includeExplanations) (map snd m4))"

subsection \<open>Diversity filter\<close>

text \<open>
  The \<^verbatim>\<open>for\<close> loop over the sorted records, on the two sets of selected genres and directors.
  The records that \<^verbatim>\<open>combineScores\<close> builds are distinct objects, so the in-place
  \<^verbatim>\<open>recommendation.score *= ...\<close> changes one list element.
\<close>

fun diversityLoop ::
  "real \<Rightarrow> hybridRecord list \<Rightarrow> string set \<Rightarrow> string set \<Rightarrow> hybridRecord list"
where
  "diversityLoop diversityFactor [] selectedGenres selectedDirectors = []"
| "diversityLoop diversityFactor (r # rs) selectedGenres selectedDirectors =
     (let gs = genres (h_movie r);
          ds = directors (h_movie r);
          genreOverlap = (\<exists>g \<in> set gs. g \<in> selectedGenres);
          directorOverlap = (\<exists>d \<in> set ds. d \<in> selectedDirectors);
          diversityPenalty = 0 + (if genreOverlap then 0.3 else 0)
                               + (if directorOverlap then 0.2 else 0)
      in r \<lparr> score := score r * (1 - diversityPenalty * diversityFactor) \<rparr>
         # diversityLoop diversityFactor rs (selectedGenres \<union> set gs) (selectedDirectors \<union> set ds))"

definition applyDiversityFilter :: "hybridRecord list \<Rightarrow> real \<Rightarrow> hybridRecord list" where
  "applyDiversityFilter recommendations diversityFactor =
     (if diversityFactor \<le> 0 then recommendations
      else diversityLoop diversityFactor (sort_key (\<lambda>r. - score r) recommendations) {} {})"

subsection \<open>Orchestrator\<close>

record options =
  o_count :: "int option"
  o_excludeRated :: "bool option"
  o_excludeWatchlist :: "bool option"
  o_minScore :: "real option"
  o_diversityFactor :: "real option"
  o_includeExplanations :: "bool option"

text \<open>
  The Redis store: the key is the pair that the template
  \<^verbatim>\<open>recommendations:${userId}:${JSON.stringify(options)}\<close> is built from, the value the pair
  of the time to live in seconds and the list that \<^verbatim>\<open>JSON.stringify\<close> wrote.
\<close>

type_synonym cache = "string \<times> options \<rightharpoonup> nat \<times> hybridRecord list"

definition redis_get ::
  "services \<Rightarrow> cache \<Rightarrow> string \<times> options \<Rightarrow> error + hybridRecord list option"
where
  "redis_get sv c key = (if redisDown sv then Inl (Thrown ''redis'') else Inr (map_option snd (c key)))"

definition redis_setex ::
  "services \<Rightarrow> cache \<Rightarrow> string \<times> options \<Rightarrow> nat \<Rightarrow> hybridRecord list \<Rightarrow> error + cache"
where
  "redis_setex sv c key ttl v =
     (if redisDown sv then Inl (Thrown ''redis'') else Inr (c(key \<mapsto> (ttl, v))))"

definition cacheTimeout :: nat where
  "cacheTimeout = 300"

text \<open>The set of excluded ids is the list of ids added to it.\<close>

definition getAvailableMovies :: "services \<Rightarrow> string \<Rightarrow> bool \<Rightarrow> bool \<Rightarrow> movie list" where
  "getAvailableMovies sv uid excludeRated excludeWatchlist =
     (let allMovies = []
      in if \<not> excludeRated \<and> \<not> excludeWatchlist then allMovies
         else case (if excludeRated then getUserActions sv uid 1000 (Some ''rate'') else Inr []) of
                Inl e \<Rightarrow> []
              | Inr ratings \<Rightarrow>
                  (case (if excludeWatchlist
                         then getUserActions sv uid 1000 (Some ''add_watchlist'') else Inr []) of
                     Inl e \<Rightarrow> []
                   | Inr watchlistActions \<Rightarrow>
                       (let excludedMovieIds =
                              set (map a_movieId ratings) \<union> set (map a_movieId watchlistActions)
                        in filter (\<lambda>m. m_id m \<notin> excludedMovieIds) allMovies)))"

text \<open>The cutoff, the sort and the slice at the end of \<^verbatim>\<open>generateRecommendations\<close>.\<close>

definition rankRecommendations :: "real \<Rightarrow> int \<Rightarrow> hybridRecord list \<Rightarrow> hybridRecord list" where
  "rankRecommendations minScore cnt diversifiedScores =
     slice0 cnt (sort_key (\<lambda>r. - score r) (filter (\<lambda>r. score r \<ge> minScore) diversifiedScores))"

text \<open>
  The result is the returned list or the rethrown exception, together with the store after
  the call.
\<close>

definition generateRecommendations ::
  "services \<Rightarrow> cache \<Rightarrow> string \<Rightarrow> options \<Rightarrow> (error + hybridRecord list) \<times> cache"
where
  "generateRecommendations sv c uid opts =
     (let cnt = (case o_count opts of None \<Rightarrow> 25 | Some n \<Rightarrow> n);
          excludeRated = (case o_excludeRated opts of None \<Rightarrow> True | Some b \<Rightarrow> b);
          excludeWatchlist = (case o_excludeWatchlist opts of None \<Rightarrow> True | Some b \<Rightarrow> b);
          minScore = (case o_minScore opts of None \<Rightarrow> 0.5 | Some x \<Rightarrow> x);
          diversityFactor = (case o_diversityFactor opts of None \<Rightarrow> 0.25 | Some x \<Rightarrow> x);
          includeExplanations = (case o_includeExplanations opts of None \<Rightarrow> False | Some b \<Rightarrow> b);
          cacheKey = (uid, opts)
      in case redis_get sv c cacheKey of
           Inl e \<Rightarrow> (Inl e, c)
         | Inr (Some cached) \<Rightarrow> (Inr cached, c)
         | Inr None \<Rightarrow>
             (let userProfile = getUserProfile sv uid;
                  w = calculateWeights userProfile;
                  availableMovies = getAvailableMovies sv uid excludeRated excludeWatchlist
              in if length availableMovies = 0 then (Inr [], c)
                 else
                   (let contentScores = contentBasedRecommendation availableMovies userProfile;
                        collaborativeScores = collaborativeFiltering sv uid availableMovies;
                        sequenceScores =
                          sequenceBasedRecommendation (dateNow sv) availableMovies userProfile;
                        ruleScores = ruleBasedRecommendation availableMovies userProfile;
                        hybridScores = combineScores contentScores collaborativeScores
                                         sequenceScores ruleScores w includeExplanations;
                        diversifiedScores = applyDiversityFilter hybridScores diversityFactor;
                        recommendations = rankRecommendations minScore cnt diversifiedScores
                    in case redis_setex sv c cacheKey cacheTimeout recommendations of
                         Inl e \<Rightarrow> (Inl e, c)
                       | Inr c' \<Rightarrow> (Inr recommendations, c'))))"

subsection \<open>Sample inputs\<close>

text \<open>A profile as the unit tests pass it to \<^verbatim>\<open>calculateWeights\<close>: only three fields matter.\<close>

definition sampleProfile :: "nat \<Rightarrow> real \<Rightarrow> real \<Rightarrow> userProfile" where
  "sampleProfile n d r =
     \<lparr> userId = ''u'', ratingCount = n, avgRating = 0, ratingVariance = 0, timeActive = 0,
       engagement = 0, lastActive = None, sessionDepth = d, recencyScore = r,
       recentActions = [], preferences = None \<rparr>"

text \<open>Services whose reads all succeed with empty results, and the empty options object.\<close>

definition quietServices :: services where
  "quietServices =
     \<lparr> getUserActions = (\<lambda>uid limit ty. Inr []), getRecentActions = (\<lambda>uid. Inr []),
       predict = (\<lambda>uid ids. Inr []), redisDown = False, dateNow = 1700000000000,
       getFullYear = 2023 \<rparr>"

definition defaultOptions :: options where
  "defaultOptions =
     \<lparr> o_count = None, o_excludeRated = None, o_excludeWatchlist = None,
       o_minScore = None, o_diversityFactor = None, o_includeExplanations = None \<rparr>"

text \<open>The movie, the score records and the weights of the unit test of \<^verbatim>\<open>combineScores\<close>.\<close>

definition testMovie :: movie where
  "testMovie =
     \<lparr> m_id = 1, genres = [], directors = [], actors = [], releaseYear = None,
       runtime = 0, averageRating = 0, m_ratingCount = 0, popularity = 0 \<rparr>"

definition testScore :: "real \<Rightarrow> scoreRecord" where
  "testScore x = \<lparr> s_movieId = 1, s_movie = Some testMovie, s_score = x, s_source = [] \<rparr>"

definition testWeights :: weights where
  "testWeights = \<lparr> content = 0.4, collaborative = 0.3, sequence = 0.2, rule = 0.1 \<rparr>"

text \<open>An action with a timestamp only, a hybrid record with an id, genres and a score.\<close>

definition sampleAction :: "int \<Rightarrow> action" where
  "sampleAction ts =
     \<lparr> a_userId = ''u'', a_movieId = 1, actionType = ''view'', a_value = 0, timestamp = ts,
       a_metadata = \<lparr> md_genres = [], md_directors = [], md_actors = [], md_runtime = 0,
                      md_releaseYear = 0 \<rparr> \<rparr>"

definition sampleRecord :: "int \<Rightarrow> string list \<Rightarrow> real \<Rightarrow> hybridRecord" where
  "sampleRecord i gs x =
     \<lparr> h_movieId = i,
       h_movie = \<lparr> m_id = i, genres = gs, directors = [], actors = [], releaseYear = None,
                   runtime = 0, averageRating = 0, m_ratingCount = 0, popularity = 0 \<rparr>,
       contentScore = 0, collaborativeScore = 0, sequenceScore = 0, ruleScore = 0,
       explanation = None, score = x, h_weights = testWeights, h_source = ''hybrid'' \<rparr>"

text \<open>A movie inside the ranges of the data model, with a million ratings less one.\<close>

definition blockbuster :: movie where
  "blockbuster =
     \<lparr> m_id = 7, genres = [''Drama''], directors = [], actors = [],
       releaseYear = Some 2010, runtime = 120, averageRating = 10, m_ratingCount = 999999,
       popularity = 100 \<rparr>"

text \<open>
  A score record for the movie of an id; the inputs of a fusion of two movies, where the rule
  strategy scored the first movie twice; a stored list and a store that holds it.
\<close>

definition sampleScore :: "int \<Rightarrow> real \<Rightarrow> scoreRecord" where
  "sampleScore i x =
     \<lparr> s_movieId = i,
       s_movie = Some \<lparr> m_id = i, genres = [], directors = [], actors = [], releaseYear = None,
                        runtime = 0, averageRating = 0, m_ratingCount = 0, popularity = 0 \<rparr>,
       s_score = x, s_source = [] \<rparr>"

definition fusionSample :: "hybridRecord list" where
  "fusionSample = combineScores [sampleScore 1 0.8, sampleScore 2 0.5] [sampleScore 2 0.6] []
                    [sampleScore 1 0.5, sampleScore 1 0.7] testWeights False"



subsection \<open>Notions used in the statements\<close>

text \<open>The score slot of a map entry that a key names.\<close>

fun getScore :: "scoreKey \<Rightarrow> scoreEntry \<Rightarrow> real" where
  "getScore ContentKey e = contentScore e"
| "getScore CollaborativeKey e = collaborativeScore e"
| "getScore SequenceKey e = sequenceScore e"
| "getScore RuleKey e = ruleScore e"

text \<open>The ids that a strategy scored: those of its records with a resolved movie.\<close>

definition scoredIds :: "scoreRecord list \<Rightarrow> int set" where
  "scoredIds scores = s_movieId ` {x \<in> set scores. s_movie x \<noteq> None}"

text \<open>
  The score that a strategy gave a movie: the score of its last record with that id and a
  resolved movie (the last write wins), and 0 when it has none.
\<close>

definition lastScore :: "scoreRecord list \<Rightarrow> int \<Rightarrow> real" where
  "lastScore scores k =
     (let given = filter (\<lambda>x. s_movie x \<noteq> None \<and> s_movieId x = k) scores
      in if given = [] then 0 else s_score (last given))"

text \<open>
  The invariant of \<^verbatim>\<open>movieScoreMap\<close> for one slot, after the records \<open>seen\<close> of that slot's
  strategy were ingested: the keys are distinct and cover the ids scored so far, every entry
  carries its key as id, and its slot holds the score the strategy gave.
\<close>

definition slotInv :: "scoreKey \<Rightarrow> scoreRecord list \<Rightarrow> (int \<times> scoreEntry) list \<Rightarrow> bool" where
  "slotInv key seen m =
     (distinct (map fst m) \<and> scoredIds seen \<subseteq> fst ` set m
      \<and> (\<forall>ke \<in> set m. h_movieId (snd ke) = fst ke
                          \<and> getScore key (snd ke) = lastScore seen (fst ke)))"

text \<open>
  The rule preferences that \<^const>\<open>extractRulePreferences\<close> yields for a user without ratings:
  no preferred genres, the default year and runtime ranges, the minimum rating 6.5.
\<close>

definition defaultRulePreferences :: "int \<Rightarrow> rulePreferences" where
  "defaultRulePreferences year =
     \<lparr> preferredGenres = [], minRating = 6.5,
       yearRange = Some \<lparr> yr_min = 1980, yr_max = real_of_int year \<rparr>,
       runtimeRange = Some \<lparr> rt_min = 70, rt_max = 190, rt_ideal = 120 \<rparr> \<rparr>"





text \<open>The end of \<^verbatim>\<open>groupActionsBySessions\<close>: the open session is pushed when it is not empty.\<close>

definition finishSessions :: "action list list \<times> action list \<Rightarrow> action list list" where
  "finishSessions sc =
     (case sc of (sessions, currentSession) \<Rightarrow>
        if currentSession \<noteq> [] then sessions @ [currentSession] else sessions)"

text \<open>Two adjacent actions of one session, and two adjacent sessions.\<close>

definition withinGap :: "int \<Rightarrow> action \<Rightarrow> action \<Rightarrow> bool" where
  "withinGap t a b = (timestamp b - timestamp a \<le> t)"

definition sessionBreak :: "int \<Rightarrow> action list \<Rightarrow> action list \<Rightarrow> bool" where
  "sessionBreak t s1 s2 = (t < timestamp (hd s2) - timestamp (last s1))"

text \<open>An output record of the diversity filter is its input record with a score that did not grow.\<close>

definition rescored :: "hybridRecord \<Rightarrow> hybridRecord \<Rightarrow> bool" where
  "rescored out inp = (out = inp \<lparr> score := score out \<rparr> \<and> score out \<le> score inp)"

text \<open>
  A movie inside the ranges of the data model and with fewer than ten thousand ratings; a list
  of score records, and a map entry, whose scores lie in \<open>[0,1]\<close>.
\<close>

definition inRange :: "movie \<Rightarrow> bool" where
  "inRange m = (0 \<le> popularity m \<and> popularity m \<le> 100 \<and> 0 \<le> averageRating m
                \<and> averageRating m \<le> 10 \<and> 0 \<le> m_ratingCount m \<and> m_ratingCount m \<le> 9999)"

definition unitScores :: "scoreRecord list \<Rightarrow> bool" where
  "unitScores scores = (\<forall>r \<in> set scores. 0 \<le> s_score r \<and> s_score r \<le> 1)"

definition slotsInUnit :: "scoreEntry \<Rightarrow> bool" where
  "slotsInUnit e = (\<forall>key. 0 \<le> getScore key e \<and> getScore key e \<le> 1)"

section \<open>Properties\<close>

subsection \<open>Weight policy\<close>

lemma calculateWeights_tier1:
  assumes "ratingCount p < 5" "0 \<le> recencyScore p"
  shows "calculateWeights p =
           \<lparr> content = 0.4 / (1 + recencyScore p / 10),
             collaborative = 0.1 / (1 + recencyScore p / 10),
             sequence = (0.2 + recencyScore p * 0.1) / (1 + recencyScore p / 10),
             rule = 0.3 / (1 + recencyScore p / 10) \<rparr>"
proof -
  have pos: "0 < 1 + recencyScore p / 10" using assms by simp
  have tot: "0 + 0.4 + 0.1 + (0.2 + recencyScore p * 0.1) + 0.3 = 1 + recencyScore p / 10"
    by simp
  show ?thesis
    using assms pos unfolding calculateWeights_def normalizeWeights_def
    by (simp add: tot Let_def max_def)
qed

lemma calculateWeights_tier2:
  assumes "\<not> ratingCount p < 5" "ratingCount p < 25" "0 \<le> sessionDepth p"
  shows "calculateWeights p =
           \<lparr> content = 0.35 / (1 + sessionDepth p / 20),
             collaborative = 0.25 / (1 + sessionDepth p / 20),
             sequence = (0.25 + sessionDepth p * 0.05) / (1 + sessionDepth p / 20),
             rule = 0.15 / (1 + sessionDepth p / 20) \<rparr>"
proof -
  have pos: "0 < 1 + sessionDepth p / 20" using assms by simp
  have tot: "0 + 0.35 + 0.25 + (0.25 + sessionDepth p * 0.05) + 0.15 = 1 + sessionDepth p / 20"
    by simp
  show ?thesis
    using assms pos unfolding calculateWeights_def normalizeWeights_def
    by (simp add: tot Let_def max_def)
qed

lemma calculateWeights_tier3:
  assumes "\<not> ratingCount p < 25" "0 \<le> recencyScore p"
  shows "calculateWeights p =
           \<lparr> content = 0.25 / (1 + recencyScore p / 10),
             collaborative = 0.45 / (1 + recencyScore p / 10),
             sequence = (0.2 + recencyScore p * 0.1) / (1 + recencyScore p / 10),
             rule = 0.1 / (1 + recencyScore p / 10) \<rparr>"
proof -
  have pos: "0 < 1 + recencyScore p / 10" using assms by simp
  have tot: "0 + 0.25 + 0.45 + (0.2 + recencyScore p * 0.1) + 0.1 = 1 + recencyScore p / 10"
    by simp
  show ?thesis
    using assms pos unfolding calculateWeights_def normalizeWeights_def
    by (simp add: tot Let_def max_def)
qed

lemma simplex_of_quotients:
  fixes a b c d t :: real
  assumes "0 \<le> a" "0 \<le> b" "0 \<le> c" "0 \<le> d" "0 < t" "a + b + c + d = t"
  shows "0 \<le> a / t \<and> 0 \<le> b / t \<and> 0 \<le> c / t \<and> 0 \<le> d / t
         \<and> a / t + b / t + c / t + d / t = 1"
proof -
  have "a / t + b / t + c / t + d / t = (a + b + c + d) / t"
    by (simp add: add_divide_distrib)
  also have "\<dots> = 1" using assms by simp
  finally show ?thesis using assms by simp
qed

text \<open>
  Claim C5. For a profile whose \<open>sessionDepth\<close> and \<open>recencyScore\<close> lie in \<open>[0,1]\<close>, the four
  weights that \<^const>\<open>calculateWeights\<close> returns are non-negative and sum to 1, for every
  \<open>ratingCount\<close>.
\<close>

theorem calculateWeights_simplex:
  assumes "0 \<le> sessionDepth p" "sessionDepth p \<le> 1" "0 \<le> recencyScore p" "recencyScore p \<le> 1"
  shows "0 \<le> content (calculateWeights p) \<and> 0 \<le> collaborative (calculateWeights p)
         \<and> 0 \<le> sequence (calculateWeights p) \<and> 0 \<le> rule (calculateWeights p)
         \<and> content (calculateWeights p) + collaborative (calculateWeights p)
           + sequence (calculateWeights p) + rule (calculateWeights p) = 1"
proof -
  consider (t1) "ratingCount p < 5" | (t2) "\<not> ratingCount p < 5" "ratingCount p < 25"
    | (t3) "\<not> ratingCount p < 25" by linarith
  then show ?thesis
  proof cases
    case t1
    have "0 \<le> 0.2 + recencyScore p * 0.1" "0 < 1 + recencyScore p / 10"
      "0.4 + 0.1 + (0.2 + recencyScore p * 0.1) + 0.3 = 1 + recencyScore p / 10"
      using assms by simp_all
    then show ?thesis
      using simplex_of_quotients[of "0.4" "0.1" "0.2 + recencyScore p * 0.1" "0.3"
                                   "1 + recencyScore p / 10"]
      by (simp add: calculateWeights_tier1[OF t1 assms(3)])
  next
    case t2
    have "0 \<le> 0.25 + sessionDepth p * 0.05" "0 < 1 + sessionDepth p / 20"
      "0.35 + 0.25 + (0.25 + sessionDepth p * 0.05) + 0.15 = 1 + sessionDepth p / 20"
      using assms by simp_all
    then show ?thesis
      using simplex_of_quotients[of "0.35" "0.25" "0.25 + sessionDepth p * 0.05" "0.15"
                                   "1 + sessionDepth p / 20"]
      by (simp add: calculateWeights_tier2[OF t2 assms(1)])
  next
    case t3
    have "0 \<le> 0.2 + recencyScore p * 0.1" "0 < 1 + recencyScore p / 10"
      "0.25 + 0.45 + (0.2 + recencyScore p * 0.1) + 0.1 = 1 + recencyScore p / 10"
      using assms by simp_all
    then show ?thesis
      using simplex_of_quotients[of "0.25" "0.45" "0.2 + recencyScore p * 0.1" "0.1"
                                   "1 + recencyScore p / 10"]
      by (simp add: calculateWeights_tier3[OF t3 assms(3)])
  qed
qed

theorem calculateWeights_simplex_witness:
  "(0::real) \<le> 0.6 \<and> (0.6::real) \<le> 1 \<and> (0::real) \<le> 0.5 \<and> (0.5::real) \<le> 1 \<and>
   content (calculateWeights (sampleProfile 20 0.6 0.5)) + collaborative (calculateWeights (sampleProfile 20 0.6 0.5))
           + sequence (calculateWeights (sampleProfile 20 0.6 0.5)) + rule (calculateWeights (sampleProfile 20 0.6 0.5)) = 1"
  using calculateWeights_simplex[of "sampleProfile 20 0.6 0.5"] by (simp add: sampleProfile_def)

text \<open>
  Claim C6. For two profiles with the same \<open>sessionDepth\<close> and \<open>recencyScore\<close> in \<open>[0,1]\<close>,
  the one with the larger \<open>ratingCount\<close> has the larger or equal collaborative weight and
  the smaller or equal rule weight, within a tier and across the tiers.
\<close>

theorem calculateWeights_maturity:
  assumes "sessionDepth p = sessionDepth q" "recencyScore p = recencyScore q"
    and "0 \<le> sessionDepth p" "sessionDepth p \<le> 1" "0 \<le> recencyScore p" "recencyScore p \<le> 1"
    and "ratingCount p \<le> ratingCount q"
  shows "collaborative (calculateWeights p) \<le> collaborative (calculateWeights q)
         \<and> rule (calculateWeights q) \<le> rule (calculateWeights p)"
proof -
  define r where "r = recencyScore p"
  define d where "d = sessionDepth p"
  have rq: "recencyScore q = r" "sessionDepth q = d" "recencyScore p = r" "sessionDepth p = d"
    using assms by (simp_all add: r_def d_def)
  have b: "0 \<le> r" "r \<le> 1" "0 \<le> d" "d \<le> 1" using assms by (simp_all add: r_def d_def)
  have pr: "0 < 1 + r / 10" and pd: "0 < 1 + d / 20" using b by simp_all
  have c12: "0.1 / (1 + r / 10) \<le> 0.25 / (1 + d / 20)"
    using b pr pd by (simp add: field_simps)
  have c23: "0.25 / (1 + d / 20) \<le> 0.45 / (1 + r / 10)"
    using b pr pd by (simp add: field_simps)
  have r12: "0.15 / (1 + d / 20) \<le> 0.3 / (1 + r / 10)"
    using b pr pd by (simp add: field_simps)
  have r23: "0.1 / (1 + r / 10) \<le> 0.15 / (1 + d / 20)"
    using b pr pd by (simp add: field_simps)
  have T1: "ratingCount x < 5 \<Longrightarrow> recencyScore x = r \<Longrightarrow>
            collaborative (calculateWeights x) = 0.1 / (1 + r / 10)
            \<and> rule (calculateWeights x) = 0.3 / (1 + r / 10)" for x
    using calculateWeights_tier1[of x] b by simp
  have T2: "\<not> ratingCount x < 5 \<Longrightarrow> ratingCount x < 25 \<Longrightarrow> sessionDepth x = d \<Longrightarrow>
            collaborative (calculateWeights x) = 0.25 / (1 + d / 20)
            \<and> rule (calculateWeights x) = 0.15 / (1 + d / 20)" for x
    using calculateWeights_tier2[of x] b by simp
  have T3: "\<not> ratingCount x < 25 \<Longrightarrow> recencyScore x = r \<Longrightarrow>
            collaborative (calculateWeights x) = 0.45 / (1 + r / 10)
            \<and> rule (calculateWeights x) = 0.1 / (1 + r / 10)" for x
    using calculateWeights_tier3[of x] b by simp
  consider (p1) "ratingCount p < 5" | (p2) "\<not> ratingCount p < 5" "ratingCount p < 25"
    | (p3) "\<not> ratingCount p < 25" by linarith
  then show ?thesis
  proof cases
    case p1
    consider (q1) "ratingCount q < 5" | (q2) "\<not> ratingCount q < 5" "ratingCount q < 25"
      | (q3) "\<not> ratingCount q < 25" by linarith
    then show ?thesis
    proof cases
      case q1 show ?thesis using T1[OF p1 rq(3)] T1[OF q1 rq(1)] by simp
    next
      case q2 show ?thesis using T1[OF p1 rq(3)] T2[OF q2 rq(2)] c12 r12 by simp
    next
      case q3 show ?thesis using T1[OF p1 rq(3)] T3[OF q3 rq(1)] c12 c23 r12 r23 by simp
    qed
  next
    case p2
    consider (q2) "\<not> ratingCount q < 5" "ratingCount q < 25"
      | (q3) "\<not> ratingCount q < 25" using assms(7) p2 by linarith
    then show ?thesis
    proof cases
      case q2 show ?thesis using T2[OF p2 rq(4)] T2[OF q2 rq(2)] by simp
    next
      case q3 show ?thesis using T2[OF p2 rq(4)] T3[OF q3 rq(1)] c23 r23 by simp
    qed
  next
    case p3
    then have q3: "\<not> ratingCount q < 25" using assms(7) by linarith
    show ?thesis using T3[OF p3 rq(3)] T3[OF q3 rq(1)] by simp
  qed
qed

theorem calculateWeights_maturity_witness:
  "collaborative (calculateWeights (sampleProfile 4 0.5 0.5)) \<le> collaborative (calculateWeights (sampleProfile 5 0.5 0.5))
   \<and> rule (calculateWeights (sampleProfile 5 0.5 0.5)) \<le> rule (calculateWeights (sampleProfile 4 0.5 0.5))"
  using calculateWeights_maturity[of "sampleProfile 4 0.5 0.5" "sampleProfile 5 0.5 0.5"] by (simp add: sampleProfile_def)

subsection \<open>Action boosts\<close>

lemma actionTypeBoost_table:
  "actionTypeBoost ''watchTime'' v = min 1.2 (v / 60)"
  "v \<noteq> 0 \<Longrightarrow> actionTypeBoost ''rate'' v = v / 10"
  "actionTypeBoost ''add_watchlist'' v = 0.7"
  "actionTypeBoost ''view'' v = 0.5"
  "ty \<notin> {''watchTime'', ''rate'', ''add_watchlist'', ''view''} \<Longrightarrow> actionTypeBoost ty v = 0.4"
  by (simp_all add: actionTypeBoost_def)

text \<open>
  Claim C10. The boost table gives \<open>value / 10\<close> for a rating; at the rating 0 the source
  takes the default 5 of an absent value and returns 0.5, not \<open>0 / 10\<close>.
\<close>

theorem actionTypeBoost_rate_zero:
  "actionTypeBoost ''rate'' 0 = 0.5 \<and> actionTypeBoost ''rate'' 0 \<noteq> 0 / 10"
  by (simp add: actionTypeBoost_def)

subsection \<open>Orchestrator\<close>

lemma getAvailableMovies_empty: "getAvailableMovies sv uid er ew = []"
  unfolding getAvailableMovies_def
  by (simp split: sum.splits)

text \<open>
  Claim C1. The candidate list of \<^const>\<open>getAvailableMovies\<close> is empty for every user and
  every pair of flags, and on a cache miss \<^const>\<open>generateRecommendations\<close> returns the
  empty list and leaves the store as it was.
\<close>

theorem generateRecommendations_cache_miss:
  assumes "redis_get sv c (uid, opts) = Inr None"
  shows "getAvailableMovies sv uid excludeRated excludeWatchlist = []
         \<and> generateRecommendations sv c uid opts = (Inr [], c)"
  using assms unfolding generateRecommendations_def
  by (simp add: getAvailableMovies_empty Let_def)

theorem generateRecommendations_cache_miss_witness:
  "redis_get quietServices Map.empty (''u1'', defaultOptions) = Inr None
   \<and> generateRecommendations quietServices Map.empty ''u1'' defaultOptions = (Inr [], Map.empty)"
proof -
  have h: "redis_get quietServices Map.empty (''u1'', defaultOptions) = Inr None"
    by (simp add: redis_get_def quietServices_def)
  show ?thesis using h generateRecommendations_cache_miss[OF h] by simp
qed

subsection \<open>Fusion\<close>

lemma upsertScore_cases:
  "ke \<in> set (upsertScore k fresh f m) \<Longrightarrow>
     ke \<in> set m \<or> ke = (k, f fresh) \<or> (\<exists>e. (k, e) \<in> set m \<and> ke = (k, f e))"
  by (induction k fresh f m rule: upsertScore.induct) (auto split: if_splits)

lemma setScore_other: "key' \<noteq> key \<Longrightarrow> getScore key (setScore key' v e) = getScore key e"
  by (cases key; cases key') simp_all

lemma setScore_id [simp]: "h_movieId (setScore key' v e) = h_movieId e"
  by (cases key') simp_all

lemma toHybrid_fields [simp]:
  "h_movieId (toHybrid w ie e) = h_movieId e"
  "contentScore (toHybrid w ie e) = contentScore e"
  "collaborativeScore (toHybrid w ie e) = collaborativeScore e"
  "sequenceScore (toHybrid w ie e) = sequenceScore e"
  "ruleScore (toHybrid w ie e) = ruleScore e"
  "h_weights (toHybrid w ie e) = w"
  "h_source (toHybrid w ie e) = ''hybrid''"
  "score (toHybrid w ie e) = contentScore e * content w + collaborativeScore e * collaborative w
                             + sequenceScore e * sequence w + ruleScore e * rule w"
  by (simp_all add: toHybrid_def Let_def)

lemma lastScore_snoc:
  "lastScore (seen @ [x]) k =
     (if s_movie x \<noteq> None \<and> s_movieId x = k then s_score x else lastScore seen k)"
  by (simp add: lastScore_def Let_def)

lemma lastScore_unscored: "k \<notin> scoredIds seen \<Longrightarrow> lastScore seen k = 0"
  by (auto simp: lastScore_def scoredIds_def Let_def filter_empty_conv)

lemma lastScore_scored:
  assumes "k \<in> scoredIds seen"
  shows "\<exists>x \<in> set seen. s_movie x \<noteq> None \<and> s_movieId x = k \<and> lastScore seen k = s_score x"
proof -
  let ?g = "filter (\<lambda>x. s_movie x \<noteq> None \<and> s_movieId x = k) seen"
  have ne: "?g \<noteq> []" using assms by (auto simp: scoredIds_def filter_empty_conv)
  then have "last ?g \<in> set ?g" by (rule last_in_set)
  then have "last ?g \<in> set seen" "s_movie (last ?g) \<noteq> None" "s_movieId (last ?g) = k"
    by auto
  moreover have "lastScore seen k = s_score (last ?g)" using ne by (simp add: lastScore_def Let_def)
  ultimately show ?thesis by blast
qed

lemma scoredIds_snoc:
  "scoredIds (seen @ [x]) = scoredIds seen \<union> (if s_movie x \<noteq> None then {s_movieId x} else {})"
  by (auto simp: scoredIds_def)

lemma upsertScore_keys:
  "map fst (upsertScore k fresh f m) = (if k \<in> fst ` set m then map fst m else map fst m @ [k])"
  by (induction k fresh f m rule: upsertScore.induct) auto

lemma upsertScore_cases_distinct:
  assumes "distinct (map fst m)" "ke \<in> set (upsertScore k fresh f m)"
  shows "(ke \<in> set m \<and> fst ke \<noteq> k) \<or> (ke = (k, f fresh) \<and> k \<notin> fst ` set m)
         \<or> (\<exists>e. (k, e) \<in> set m \<and> ke = (k, f e))"
  using assms
proof (induction k fresh f m rule: upsertScore.induct)
  case (1 k fresh f)
  then show ?case by simp
next
  case (2 k fresh f k' e m)
  show ?case
  proof (cases "k' = k")
    case True
    then have "ke = (k, f e) \<or> ke \<in> set m" using 2(3) by auto
    moreover have "ke \<in> set m \<Longrightarrow> fst ke \<noteq> k" using 2(2) True by force
    ultimately show ?thesis using True by auto
  next
    case False
    then have "ke = (k', e) \<or> ke \<in> set (upsertScore k fresh f m)" using 2(3) by auto
    then show ?thesis
    proof
      assume "ke = (k', e)" then show ?thesis using False by simp
    next
      assume a: "ke \<in> set (upsertScore k fresh f m)"
      have "distinct (map fst m)" using 2(2) by simp
      from 2(1)[OF False this a] show ?thesis using False by auto
    qed
  qed
qed

lemma getScore_setScore_same [simp]: "getScore key (setScore key v e) = v"
  by (cases key) simp_all

lemma ingestItem_keys:
  "map fst (ingestItem ie key' x m) =
     (if s_movie x \<noteq> None \<and> s_movieId x \<notin> fst ` set m then map fst m @ [s_movieId x]
      else map fst m)"
  by (cases "s_movie x") (auto simp: ingestItem_def upsertScore_keys)

lemma ingestItem_slotInv:
  assumes "slotInv key seen m" "key' \<noteq> key \<or> seen' = seen @ [x]" "key' = key \<or> seen' = seen"
  shows "slotInv key seen' (ingestItem ie key' x m)"
proof (cases "s_movie x")
  case None
  have "lastScore seen' = lastScore seen" "scoredIds seen' = scoredIds seen"
    using assms(2,3) None by (auto simp: fun_eq_iff lastScore_snoc scoredIds_snoc)
  then show ?thesis using assms(1) None by (simp add: ingestItem_def slotInv_def)
next
  case (Some mv)
  let ?k = "s_movieId x"
  let ?fresh = "\<lparr> h_movieId = s_movieId x, h_movie = mv, contentScore = 0,
              collaborativeScore = 0, sequenceScore = 0, ruleScore = 0,
              explanation = (if ie then Some [] else None) \<rparr>"
  let ?f = "setScore key' (s_score x)"
  have ing: "ingestItem ie key' x m = upsertScore ?k ?fresh ?f m"
    using Some by (simp add: ingestItem_def)
  have d: "distinct (map fst m)" and sub: "scoredIds seen \<subseteq> fst ` set m"
    and ent: "\<And>ke. ke \<in> set m \<Longrightarrow> h_movieId (snd ke) = fst ke
                          \<and> getScore key (snd ke) = lastScore seen (fst ke)"
    using assms(1) by (auto simp: slotInv_def)
  have keys: "map fst (ingestItem ie key' x m)
              = (if ?k \<notin> fst ` set m then map fst m @ [?k] else map fst m)"
    using Some by (simp add: ingestItem_keys)
  have d': "distinct (map fst (ingestItem ie key' x m))"
    unfolding keys using d by auto
  have kset: "fst ` set (ingestItem ie key' x m) = insert ?k (fst ` set m)"
  proof -
    have "set (map fst (ingestItem ie key' x m)) = insert ?k (fst ` set m)"
      unfolding keys by auto
    then show ?thesis by simp
  qed
  have sub': "scoredIds seen' \<subseteq> fst ` set (ingestItem ie key' x m)"
    unfolding kset using sub assms(2,3) Some by (auto simp: scoredIds_snoc)
  have zero: "getScore key ?fresh = 0" by (cases key) simp_all
  have ent': "h_movieId (snd ke) = fst ke \<and> getScore key (snd ke) = lastScore seen' (fst ke)"
    if "ke \<in> set (ingestItem ie key' x m)" for ke
  proof -
    from that consider (old) "ke \<in> set m" "fst ke \<noteq> ?k"
      | (new) "ke = (?k, ?f ?fresh)" "?k \<notin> fst ` set m"
      | (upd) e where "(?k, e) \<in> set m" "ke = (?k, ?f e)"
      unfolding ing using upsertScore_cases_distinct[OF d] by blast
    then show ?thesis
    proof cases
      case old
      have "lastScore seen' (fst ke) = lastScore seen (fst ke)"
        using assms(2,3) old(2) by (auto simp: lastScore_snoc)
      then show ?thesis using ent[OF old(1)] by simp
    next
      case new
      show ?thesis
      proof (cases "key' = key")
        case True
        then have "seen' = seen @ [x]" using assms(2) by simp
        then show ?thesis using new True Some by (simp add: lastScore_snoc)
      next
        case False
        then have s: "seen' = seen" using assms(3) by simp
        have "?k \<notin> scoredIds seen" using new(2) sub by auto
        then have "lastScore seen ?k = 0" by (rule lastScore_unscored)
        then show ?thesis using new False s zero by (simp add: setScore_other)
      qed
    next
      case upd
      note e = ent[OF upd(1)]
      show ?thesis
      proof (cases "key' = key")
        case True
        then have "seen' = seen @ [x]" using assms(2) by simp
        then show ?thesis using upd True Some e by (simp add: lastScore_snoc)
      next
        case False
        then have s: "seen' = seen" using assms(3) by simp
        show ?thesis using upd False s e by (simp add: setScore_other)
      qed
    qed
  qed
  show ?thesis unfolding slotInv_def using d' sub' ent' by blast
qed

lemma ingestScores_slotInv_same:
  "slotInv key seen m \<Longrightarrow> slotInv key (seen @ xs) (ingestScores ie xs key m)"
proof (induction xs arbitrary: seen m)
  case Nil
  then show ?case by (simp add: ingestScores_def)
next
  case (Cons x xs)
  have "slotInv key (seen @ [x]) (ingestItem ie key x m)"
    using Cons.prems by (rule ingestItem_slotInv) simp_all
  from Cons.IH[OF this] show ?case by (simp add: ingestScores_def)
qed

lemma ingestScores_slotInv_other:
  "key' \<noteq> key \<Longrightarrow> slotInv key seen m \<Longrightarrow> slotInv key seen (ingestScores ie xs key' m)"
proof (induction xs arbitrary: m)
  case Nil
  then show ?case by (simp add: ingestScores_def)
next
  case (Cons x xs)
  have "slotInv key seen (ingestItem ie key' x m)"
    using Cons.prems(2) by (rule ingestItem_slotInv) (simp_all add: Cons.prems(1))
  from Cons.IH[OF Cons.prems(1) this] show ?case by (simp add: ingestScores_def)
qed

lemma ingestScores_keys:
  "fst ` set (ingestScores ie xs key m) = fst ` set m \<union> scoredIds xs"
proof (induction xs arbitrary: m)
  case Nil
  then show ?case by (simp add: ingestScores_def scoredIds_def)
next
  case (Cons x xs)
  have k: "fst ` set (ingestItem ie key x m)
           = fst ` set m \<union> (if s_movie x \<noteq> None then {s_movieId x} else {})"
  proof -
    have "set (map fst (ingestItem ie key x m))
          = fst ` set m \<union> (if s_movie x \<noteq> None then {s_movieId x} else {})"
      unfolding ingestItem_keys by auto
    then show ?thesis by simp
  qed
  have "scoredIds (x # xs) = (if s_movie x \<noteq> None then {s_movieId x} else {}) \<union> scoredIds xs"
    by (auto simp: scoredIds_def)
  then show ?case using Cons.IH[of "ingestItem ie key x m"] k
    by (simp add: ingestScores_def Un_assoc)
qed

lemma slotInv_empty: "slotInv key [] []"
  by (simp add: slotInv_def scoredIds_def)

lemma combine_slotInv:
  fixes cs cl sq rl ie
  defines "m4 \<equiv> ingestScores ie rl RuleKey (ingestScores ie sq SequenceKey
                   (ingestScores ie cl CollaborativeKey (ingestScores ie cs ContentKey [])))"
  shows "slotInv ContentKey cs m4" "slotInv CollaborativeKey cl m4"
        "slotInv SequenceKey sq m4" "slotInv RuleKey rl m4"
proof -
  let ?m1 = "ingestScores ie cs ContentKey []"
  let ?m2 = "ingestScores ie cl CollaborativeKey ?m1"
  let ?m3 = "ingestScores ie sq SequenceKey ?m2"
  have c1: "slotInv ContentKey cs ?m1"
    using ingestScores_slotInv_same[OF slotInv_empty, of ContentKey cs ie] by simp
  have l1: "slotInv CollaborativeKey [] ?m1" "slotInv SequenceKey [] ?m1" "slotInv RuleKey [] ?m1"
    by (rule ingestScores_slotInv_other[OF _ slotInv_empty], simp)+
  have c2: "slotInv ContentKey cs ?m2" by (rule ingestScores_slotInv_other[OF _ c1]) simp
  have l2: "slotInv CollaborativeKey cl ?m2"
    using ingestScores_slotInv_same[OF l1(1), of cl ie] by simp
  have s2: "slotInv SequenceKey [] ?m2" by (rule ingestScores_slotInv_other[OF _ l1(2)]) simp
  have r2: "slotInv RuleKey [] ?m2" by (rule ingestScores_slotInv_other[OF _ l1(3)]) simp
  have c3: "slotInv ContentKey cs ?m3" by (rule ingestScores_slotInv_other[OF _ c2]) simp
  have l3: "slotInv CollaborativeKey cl ?m3" by (rule ingestScores_slotInv_other[OF _ l2]) simp
  have s3: "slotInv SequenceKey sq ?m3"
    using ingestScores_slotInv_same[OF s2, of sq ie] by simp
  have r3: "slotInv RuleKey [] ?m3" by (rule ingestScores_slotInv_other[OF _ r2]) simp
  show "slotInv ContentKey cs m4" unfolding m4_def
    by (rule ingestScores_slotInv_other[OF _ c3]) simp
  show "slotInv CollaborativeKey cl m4" unfolding m4_def
    by (rule ingestScores_slotInv_other[OF _ l3]) simp
  show "slotInv SequenceKey sq m4" unfolding m4_def
    by (rule ingestScores_slotInv_other[OF _ s3]) simp
  show "slotInv RuleKey rl m4" unfolding m4_def
    using ingestScores_slotInv_same[OF r3, of rl ie] by simp
qed

lemma combine_keys:
  "fst ` set (ingestScores ie rl RuleKey (ingestScores ie sq SequenceKey
                   (ingestScores ie cl CollaborativeKey (ingestScores ie cs ContentKey []))))
   = scoredIds cs \<union> scoredIds cl \<union> scoredIds sq \<union> scoredIds rl"
  by (simp add: ingestScores_keys)

lemma combine_ids:
  fixes cs cl sq rl ie
  defines "m4 \<equiv> ingestScores ie rl RuleKey (ingestScores ie sq SequenceKey
                   (ingestScores ie cl CollaborativeKey (ingestScores ie cs ContentKey [])))"
  shows "map h_movieId (combineScores cs cl sq rl w ie) = map fst m4"
proof -
  have "\<forall>ke \<in> set m4. h_movieId (snd ke) = fst ke"
    using combine_slotInv(1)[where cs = cs and cl = cl and sq = sq and rl = rl and ie = ie] unfolding m4_def slotInv_def by blast
  then have "map (\<lambda>ke. h_movieId (toHybrid w ie (snd ke))) m4 = map fst m4"
    by (intro map_cong) simp_all
  then show ?thesis by (simp add: combineScores_def m4_def Let_def comp_def)
qed

text \<open>
  Claim C3. Every record that \<^const>\<open>combineScores\<close> returns has the score
  \<open>contentScore * w_content + collaborativeScore * w_collaborative + sequenceScore * w_sequence
  + ruleScore * w_rule\<close>; each of its four sub-scores is the score that the strategy gave the
  record's movie (the score of the strategy's last record with that id and a resolved movie),
  and 0 when the strategy did not score the movie; the returned ids are distinct and are
  exactly the ids that some strategy scored; and for one movie with the sub-scores 0.8, 0.6,
  0.7, 0.5 and the weights 0.4, 0.3, 0.2, 0.1 the result is one record of score 0.69.
\<close>

theorem combineScores_linear:
  assumes "r \<in> set (combineScores contentScores collaborativeScores sequenceScores ruleScores w ie)"
  shows "score r = contentScore r * content w + collaborativeScore r * collaborative w
                   + sequenceScore r * sequence w + ruleScore r * rule w
         \<and> (h_movieId r \<notin> scoredIds contentScores \<longrightarrow> contentScore r = 0)
         \<and> (h_movieId r \<notin> scoredIds collaborativeScores \<longrightarrow> collaborativeScore r = 0)
         \<and> (h_movieId r \<notin> scoredIds sequenceScores \<longrightarrow> sequenceScore r = 0)
         \<and> (h_movieId r \<notin> scoredIds ruleScores \<longrightarrow> ruleScore r = 0)
         \<and> map score (combineScores [testScore 0.8] [testScore 0.6] [testScore 0.7]
                         [testScore 0.5] testWeights False) = [0.69]
         \<and> contentScore r = lastScore contentScores (h_movieId r)
         \<and> collaborativeScore r = lastScore collaborativeScores (h_movieId r)
         \<and> sequenceScore r = lastScore sequenceScores (h_movieId r)
         \<and> ruleScore r = lastScore ruleScores (h_movieId r)
         \<and> (h_movieId r \<in> scoredIds contentScores \<longrightarrow>
              (\<exists>x \<in> set contentScores. s_movie x \<noteq> None \<and> s_movieId x = h_movieId r
                                         \<and> contentScore r = s_score x))
         \<and> (h_movieId r \<in> scoredIds collaborativeScores \<longrightarrow>
              (\<exists>x \<in> set collaborativeScores. s_movie x \<noteq> None \<and> s_movieId x = h_movieId r
                                               \<and> collaborativeScore r = s_score x))
         \<and> (h_movieId r \<in> scoredIds sequenceScores \<longrightarrow>
              (\<exists>x \<in> set sequenceScores. s_movie x \<noteq> None \<and> s_movieId x = h_movieId r
                                          \<and> sequenceScore r = s_score x))
         \<and> (h_movieId r \<in> scoredIds ruleScores \<longrightarrow>
              (\<exists>x \<in> set ruleScores. s_movie x \<noteq> None \<and> s_movieId x = h_movieId r
                                      \<and> ruleScore r = s_score x))
         \<and> score r = lastScore contentScores (h_movieId r) * content w
                      + lastScore collaborativeScores (h_movieId r) * collaborative w
                      + lastScore sequenceScores (h_movieId r) * sequence w
                      + lastScore ruleScores (h_movieId r) * rule w
         \<and> h_movieId ` set (combineScores contentScores collaborativeScores sequenceScores
                               ruleScores w ie)
             = scoredIds contentScores \<union> scoredIds collaborativeScores
               \<union> scoredIds sequenceScores \<union> scoredIds ruleScores
         \<and> distinct (map h_movieId (combineScores contentScores collaborativeScores
                                       sequenceScores ruleScores w ie))
         \<and> h_weights r = w \<and> h_source r = ''hybrid''"
proof -
  define m4 where "m4 = ingestScores ie ruleScores RuleKey
                     (ingestScores ie sequenceScores SequenceKey
                       (ingestScores ie collaborativeScores CollaborativeKey
                         (ingestScores ie contentScores ContentKey [])))"
  let ?out = "combineScores contentScores collaborativeScores sequenceScores ruleScores w ie"
  have cs: "?out = map (toHybrid w ie) (map snd m4)"
    by (simp add: combineScores_def m4_def Let_def)
  from assms obtain ke where ke: "ke \<in> set m4" and r: "r = toHybrid w ie (snd ke)"
    unfolding cs by auto
  note inv = combine_slotInv[where cs = contentScores and cl = collaborativeScores
                             and sq = sequenceScores and rl = ruleScores and ie = ie,
                             folded m4_def]
  have idk: "h_movieId r = fst ke"
    using inv(1) ke by (simp add: slotInv_def r)
  have t1: "contentScore r = lastScore contentScores (h_movieId r)"
    using inv(1) ke by (auto simp: slotInv_def r)
  have t2: "collaborativeScore r = lastScore collaborativeScores (h_movieId r)"
    using inv(2) ke by (auto simp: slotInv_def r)
  have t3: "sequenceScore r = lastScore sequenceScores (h_movieId r)"
    using inv(3) ke by (auto simp: slotInv_def r)
  have t4: "ruleScore r = lastScore ruleScores (h_movieId r)"
    using inv(4) ke by (auto simp: slotInv_def r)
  have lin: "score r = contentScore r * content w + collaborativeScore r * collaborative w
                   + sequenceScore r * sequence w + ruleScore r * rule w"
    by (simp add: r)
  have lin2: "score r = lastScore contentScores (h_movieId r) * content w
                      + lastScore collaborativeScores (h_movieId r) * collaborative w
                      + lastScore sequenceScores (h_movieId r) * sequence w
                      + lastScore ruleScores (h_movieId r) * rule w"
    using lin t1 t2 t3 t4 by simp
  have z1: "h_movieId r \<notin> scoredIds contentScores \<longrightarrow> contentScore r = 0"
    using t1 lastScore_unscored by simp
  have z2: "h_movieId r \<notin> scoredIds collaborativeScores \<longrightarrow> collaborativeScore r = 0"
    using t2 lastScore_unscored by simp
  have z3: "h_movieId r \<notin> scoredIds sequenceScores \<longrightarrow> sequenceScore r = 0"
    using t3 lastScore_unscored by simp
  have z4: "h_movieId r \<notin> scoredIds ruleScores \<longrightarrow> ruleScore r = 0"
    using t4 lastScore_unscored by simp
  have e1: "h_movieId r \<in> scoredIds contentScores \<longrightarrow>
              (\<exists>x \<in> set contentScores. s_movie x \<noteq> None \<and> s_movieId x = h_movieId r
                                         \<and> contentScore r = s_score x)"
    using t1 lastScore_scored[of "h_movieId r" contentScores] by auto
  have e2: "h_movieId r \<in> scoredIds collaborativeScores \<longrightarrow>
              (\<exists>x \<in> set collaborativeScores. s_movie x \<noteq> None \<and> s_movieId x = h_movieId r
                                               \<and> collaborativeScore r = s_score x)"
    using t2 lastScore_scored[of "h_movieId r" collaborativeScores] by auto
  have e3: "h_movieId r \<in> scoredIds sequenceScores \<longrightarrow>
              (\<exists>x \<in> set sequenceScores. s_movie x \<noteq> None \<and> s_movieId x = h_movieId r
                                          \<and> sequenceScore r = s_score x)"
    using t3 lastScore_scored[of "h_movieId r" sequenceScores] by auto
  have e4: "h_movieId r \<in> scoredIds ruleScores \<longrightarrow>
              (\<exists>x \<in> set ruleScores. s_movie x \<noteq> None \<and> s_movieId x = h_movieId r
                                      \<and> ruleScore r = s_score x)"
    using t4 lastScore_scored[of "h_movieId r" ruleScores] by auto
  have ids: "map h_movieId ?out = map fst m4"
    unfolding m4_def by (rule combine_ids)
  have "set (map h_movieId ?out) = fst ` set m4" unfolding ids by simp
  then have k: "h_movieId ` set ?out
             = scoredIds contentScores \<union> scoredIds collaborativeScores
               \<union> scoredIds sequenceScores \<union> scoredIds ruleScores"
    unfolding m4_def combine_keys by simp
  have d: "distinct (map h_movieId ?out)"
    unfolding ids using inv(1) by (simp add: slotInv_def)
  have s3: "map score (combineScores [testScore 0.8] [testScore 0.6] [testScore 0.7]
                         [testScore 0.5] testWeights False) = [0.69]"
    by (simp add: combineScores_def ingestScores_def ingestItem_def testScore_def testWeights_def
        Let_def)
  have ws: "h_weights r = w" "h_source r = ''hybrid''" by (simp_all add: r)
  show ?thesis
    using lin z1 z2 z3 z4 s3 t1 t2 t3 t4 e1 e2 e3 e4 lin2 k d ws by blast
qed

theorem combineScores_linear_witness:
  "hd fusionSample \<in> set fusionSample
   \<and> map (\<lambda>r. (h_movieId r, contentScore r, collaborativeScore r, sequenceScore r,
                 ruleScore r, score r)) fusionSample
       = [(1, 0.8, 0, 0, 0.7, 0.39), (2, 0.5, 0.6, 0, 0, 0.38)]
   \<and> ruleScore (hd fusionSample)
       = lastScore [sampleScore 1 0.5, sampleScore 1 0.7] (h_movieId (hd fusionSample))
   \<and> lastScore [sampleScore 1 0.5, sampleScore 1 0.7] 1 = 0.7"
proof -
  have v: "map (\<lambda>r. (h_movieId r, contentScore r, collaborativeScore r, sequenceScore r,
                 ruleScore r, score r)) fusionSample
       = [(1, 0.8, 0, 0, 0.7, 0.39), (2, 0.5, 0.6, 0, 0, 0.38)]"
    by (simp add: fusionSample_def combineScores_def ingestScores_def ingestItem_def
        sampleScore_def testWeights_def Let_def)
  then have ne: "fusionSample \<noteq> []" by auto
  then have h: "hd fusionSample \<in> set fusionSample" by simp
  have l: "lastScore [sampleScore 1 0.5, sampleScore 1 0.7] 1 = 0.7"
    by (simp add: lastScore_def sampleScore_def Let_def)
  have "ruleScore (hd fusionSample)
       = lastScore [sampleScore 1 0.5, sampleScore 1 0.7] (h_movieId (hd fusionSample))"
    using combineScores_linear[OF h[unfolded fusionSample_def]]
    unfolding fusionSample_def by blast
  then show ?thesis using h v l by blast
qed


subsection \<open>Cold start\<close>

lemma cold_profile:
  assumes "getUserActions sv uid 1000 (Some ''rate'') = Inr []"
    and "getRecentActions sv uid = Inr []"
    and "getUserActions sv uid 1000 None = Inr allActions"
  shows "ratingCount (getUserProfile sv uid) = 0"
    and "recentActions (getUserProfile sv uid) = []"
    and "preferences (getUserProfile sv uid) = Some (calculateUserPreferences (getFullYear sv) [])"
  using assms by (simp_all add: getUserProfile_def Let_def)

lemma cold_preferences:
  "p_genres (calculateUserPreferences y []) = Some []"
  "ratingThreshold (calculateUserPreferences y []) = 6.5"
  by (simp_all add: calculateUserPreferences_def normalizePreferenceMap_def Let_def)

lemma findSimilarUsers_empty: "findSimilarUsers sv uid = []"
  by (simp add: findSimilarUsers_def split: sum.splits)

lemma userBased_cold:
  "userBasedCollaborativeFiltering sv uid ms = popularityFallback ms ''collaborative-cold''"
  by (simp add: userBasedCollaborativeFiltering_def findSimilarUsers_empty)

lemma cold_extract:
  assumes "getUserActions sv uid 1000 (Some ''rate'') = Inr []"
    and "getRecentActions sv uid = Inr []"
    and "getUserActions sv uid 1000 None = Inr allActions"
  shows "extractRulePreferences (getUserProfile sv uid)
         = Some (defaultRulePreferences (getFullYear sv))"
  using assms
  by (simp add: getUserProfile_def Let_def extractRulePreferences_def calculateUserPreferences_def
      normalizePreferenceMap_def calculateRuntimePreference_def calculateYearPreference_def
      defaultRulePreferences_def)

lemma default_rule_score:
  "calculateRuleScore m (defaultRulePreferences y)
   = normalizeScore
       ((0.4
         + (if (case releaseYear m of None \<Rightarrow> False
                | Some yr \<Rightarrow> 1980 \<le> yr \<and> yr \<le> real_of_int y) then 0.1 else 0)
         + (if runtime m \<noteq> 0 \<and> 70 \<le> runtime m \<and> runtime m \<le> 190 then 0.1 else 0)
         + (if averageRating m \<ge> 6.5 then 0.1 else 0)) * 10)"
  by (simp add: calculateRuleScore_def defaultRulePreferences_def Let_def split: option.splits)

lemma profile_preferences_None:
  "preferences (getUserProfile sv uid) = None
   \<longleftrightarrow> (\<exists>e. getUserActions sv uid 1000 (Some ''rate'') = Inl e \<or> getRecentActions sv uid = Inl e
            \<or> getUserActions sv uid 1000 None = Inl e)"
  by (auto simp: getUserProfile_def degenerateProfile_def Let_def split: sum.splits)

lemma profile_preferences_Some:
  "preferences (getUserProfile sv uid) = Some prefs \<Longrightarrow> p_genres prefs \<noteq> None"
  by (auto simp: getUserProfile_def degenerateProfile_def Let_def calculateUserPreferences_def
      split: sum.splits)

text \<open>
  Claim C4, as amended. For a user whose reads succeed with no ratings and no recent actions,
  and for whom the matrix model returns no predictions, the content, collaborative and sequence
  scorers return the popularity fallback tagged \<open>content-cold\<close>, \<open>collaborative-cold\<close> and
  \<open>sequence-cold\<close>. The rule scorer does not fall back: it scores every candidate against the
  default rule preferences (no preferred genres, years 1980 to the current year, runtime 70 to
  190, minimum rating 6.5), which gives the normalised sum of 0.4 and 0.1 for each of the three
  rules the movie meets, and tags its records \<open>rule-based\<close>. For any profile the rule scorer
  returns the fallback tagged \<open>rule-cold\<close> when the profile has no preferences or no genre
  dictionary, and records tagged \<open>rule-based\<close> otherwise; a profile built by
  \<^const>\<open>getUserProfile\<close> has no preferences exactly when one of its three reads failed, and
  its preferences always have a genre dictionary.
\<close>

theorem cold_start_amended:
  assumes "getUserActions sv uid 1000 (Some ''rate'') = Inr []"
    and "getRecentActions sv uid = Inr []"
    and "getUserActions sv uid 1000 None = Inr allActions"
    and "predict sv uid (map m_id ms) = Inr []"
  shows "ratingCount (getUserProfile sv uid) = 0
         \<and> recentActions (getUserProfile sv uid) = []
         \<and> contentBasedRecommendation ms (getUserProfile sv uid)
             = popularityFallback ms ''content-cold''
         \<and> collaborativeFiltering sv uid ms = popularityFallback ms ''collaborative-cold''
         \<and> sequenceBasedRecommendation (dateNow sv) ms (getUserProfile sv uid)
             = popularityFallback ms ''sequence-cold''
         \<and> map s_source (ruleBasedRecommendation ms (getUserProfile sv uid))
             = replicate (length ms) ''rule-based''
         \<and> ruleBasedRecommendation ms (degenerateProfile uid) = popularityFallback ms ''rule-cold''
         \<and> extractRulePreferences (getUserProfile sv uid)
             = Some (defaultRulePreferences (getFullYear sv))
         \<and> ruleBasedRecommendation ms (getUserProfile sv uid)
             = map (\<lambda>m. \<lparr> s_movieId = m_id m, s_movie = Some m,
                           s_score = calculateRuleScore m (defaultRulePreferences (getFullYear sv)),
                           s_source = ''rule-based'' \<rparr>) ms
         \<and> (\<forall>m y. calculateRuleScore m (defaultRulePreferences y)
               = normalizeScore
                   ((0.4
                     + (if (case releaseYear m of None \<Rightarrow> False
                            | Some yr \<Rightarrow> 1980 \<le> yr \<and> yr \<le> real_of_int y) then 0.1 else 0)
                     + (if runtime m \<noteq> 0 \<and> 70 \<le> runtime m \<and> runtime m \<le> 190 then 0.1 else 0)
                     + (if averageRating m \<ge> 6.5 then 0.1 else 0)) * 10))
         \<and> (\<forall>p. (preferences p = None
                   \<or> (\<exists>prefs. preferences p = Some prefs \<and> p_genres prefs = None))
                  \<longrightarrow> ruleBasedRecommendation ms p = popularityFallback ms ''rule-cold'')
         \<and> (\<forall>p prefs g. preferences p = Some prefs \<and> p_genres prefs = Some g
                  \<longrightarrow> map s_source (ruleBasedRecommendation ms p)
                      = replicate (length ms) ''rule-based'')
         \<and> (\<forall>sv' uid'. preferences (getUserProfile sv' uid') = None
                \<longleftrightarrow> (\<exists>e. getUserActions sv' uid' 1000 (Some ''rate'') = Inl e
                         \<or> getRecentActions sv' uid' = Inl e
                         \<or> getUserActions sv' uid' 1000 None = Inl e))
         \<and> (\<forall>sv' uid' prefs. preferences (getUserProfile sv' uid') = Some prefs
                \<longrightarrow> p_genres prefs \<noteq> None)"
proof -
  note cp = cold_profile[OF assms(1-3)]
  have 1: "contentBasedRecommendation ms (getUserProfile sv uid)
             = popularityFallback ms ''content-cold''"
    by (simp add: contentBasedRecommendation_def cp)
  have 2: "collaborativeFiltering sv uid ms = popularityFallback ms ''collaborative-cold''"
    by (simp add: collaborativeFiltering_def assms(4) userBased_cold)
  have 3: "sequenceBasedRecommendation (dateNow sv) ms (getUserProfile sv uid)
             = popularityFallback ms ''sequence-cold''"
    by (simp add: sequenceBasedRecommendation_def cp)
  note ex = cold_extract[OF assms(1-3)]
  have 6: "ruleBasedRecommendation ms (getUserProfile sv uid)
             = map (\<lambda>m. \<lparr> s_movieId = m_id m, s_movie = Some m,
                           s_score = calculateRuleScore m (defaultRulePreferences (getFullYear sv)),
                           s_source = ''rule-based'' \<rparr>) ms"
    by (simp add: ruleBasedRecommendation_def ex)
  have 4: "map s_source (ruleBasedRecommendation ms (getUserProfile sv uid))
             = replicate (length ms) ''rule-based''"
    unfolding 6 by (simp add: comp_def map_replicate_const)
  have 5: "ruleBasedRecommendation ms (degenerateProfile uid) = popularityFallback ms ''rule-cold''"
    by (simp add: ruleBasedRecommendation_def extractRulePreferences_def degenerateProfile_def)
  have 7: "\<forall>m y. calculateRuleScore m (defaultRulePreferences y)
               = normalizeScore
                   ((0.4
                     + (if (case releaseYear m of None \<Rightarrow> False
                            | Some yr \<Rightarrow> 1980 \<le> yr \<and> yr \<le> real_of_int y) then 0.1 else 0)
                     + (if runtime m \<noteq> 0 \<and> 70 \<le> runtime m \<and> runtime m \<le> 190 then 0.1 else 0)
                     + (if averageRating m \<ge> 6.5 then 0.1 else 0)) * 10)"
    using default_rule_score by blast
  have 8: "\<forall>p. (preferences p = None
                   \<or> (\<exists>prefs. preferences p = Some prefs \<and> p_genres prefs = None))
                  \<longrightarrow> ruleBasedRecommendation ms p = popularityFallback ms ''rule-cold''"
    by (auto simp: ruleBasedRecommendation_def extractRulePreferences_def)
  have 9: "\<forall>p prefs g. preferences p = Some prefs \<and> p_genres prefs = Some g
                  \<longrightarrow> map s_source (ruleBasedRecommendation ms p)
                      = replicate (length ms) ''rule-based''"
    by (auto simp: ruleBasedRecommendation_def extractRulePreferences_def comp_def
        map_replicate_const)
  have 10: "\<forall>sv' uid'. preferences (getUserProfile sv' uid') = None
                \<longleftrightarrow> (\<exists>e. getUserActions sv' uid' 1000 (Some ''rate'') = Inl e
                         \<or> getRecentActions sv' uid' = Inl e
                         \<or> getUserActions sv' uid' 1000 None = Inl e)"
    using profile_preferences_None by blast
  have 11: "\<forall>sv' uid' prefs. preferences (getUserProfile sv' uid') = Some prefs
                \<longrightarrow> p_genres prefs \<noteq> None"
    using profile_preferences_Some by blast
  show ?thesis using cp(1,2) 1 2 3 4 5 ex 6 7 8 9 10 11 by blast
qed

theorem cold_start_amended_witness:
  "getUserActions quietServices ''u1'' 1000 (Some ''rate'') = Inr []
   \<and> getRecentActions quietServices ''u1'' = Inr []
   \<and> getUserActions quietServices ''u1'' 1000 None = Inr []
   \<and> predict quietServices ''u1'' (map m_id [blockbuster]) = Inr []
   \<and> map s_source (contentBasedRecommendation [blockbuster] (getUserProfile quietServices ''u1''))
       = [''content-cold'']
   \<and> map s_source (ruleBasedRecommendation [blockbuster] (getUserProfile quietServices ''u1''))
       = [''rule-based'']
   \<and> map s_score (ruleBasedRecommendation [blockbuster] (getUserProfile quietServices ''u1''))
       = [2 / 3]"
proof -
  have h: "getUserActions quietServices ''u1'' 1000 (Some ''rate'') = Inr []"
    "getRecentActions quietServices ''u1'' = Inr []"
    "getUserActions quietServices ''u1'' 1000 None = Inr []"
    "predict quietServices ''u1'' (map m_id [blockbuster]) = Inr []"
    by (simp_all add: quietServices_def)
  note t = cold_start_amended[OF h]
  have y: "getFullYear quietServices = 2023" by (simp add: quietServices_def)
  have sc: "calculateRuleScore blockbuster (defaultRulePreferences 2023) = 2 / 3"
    using t by (simp add: blockbuster_def normalizeScore_def)
  have c: "map s_source (contentBasedRecommendation [blockbuster] (getUserProfile quietServices ''u1''))
       = [''content-cold'']"
    using t by (simp add: popularityFallback_def)
  have r: "ruleBasedRecommendation [blockbuster] (getUserProfile quietServices ''u1'')
           = [\<lparr> s_movieId = m_id blockbuster, s_movie = Some blockbuster,
                 s_score = 2 / 3, s_source = ''rule-based'' \<rparr>]"
    using t by (simp add: y sc)
  show ?thesis using h c r by simp
qed

text \<open>
  Claim C4, as stated, fails for the rule scorer: the user of \<^const>\<open>quietServices\<close> has no
  ratings and no recent actions, and the rule scorer's record is tagged \<open>rule-based\<close>.
\<close>

theorem cold_start_rule_counterexample:
  "ratingCount (getUserProfile quietServices ''u1'') = 0
   \<and> recentActions (getUserProfile quietServices ''u1'') = []
   \<and> map s_source (ruleBasedRecommendation [testMovie] (getUserProfile quietServices ''u1''))
       = [''rule-based'']
   \<and> ''rule-based'' \<noteq> ''rule-cold''"
  by (simp add: getUserProfile_def quietServices_def Let_def ruleBasedRecommendation_def
      extractRulePreferences_def cold_preferences)


subsection \<open>Score bounds\<close>

lemma normalizeScore_range: "0 \<le> normalizeScore x \<and> normalizeScore x \<le> 1"
  by (simp add: normalizeScore_def)

lemma calculatePopularityScore_range:
  assumes "0 \<le> popularity m" "popularity m \<le> 100" "0 \<le> averageRating m" "averageRating m \<le> 10"
    and "0 \<le> m_ratingCount m" "m_ratingCount m \<le> 9999"
  shows "0 \<le> calculatePopularityScore m \<and> calculatePopularityScore m \<le> 1"
proof -
  define a where "a = popularity m / 100"
  define b where "b = averageRating m / 10"
  define q where "q = ln (m_ratingCount m + 1) / ln 10000"
  have pos: "0 < ln (10000::real)" by simp
  have l0: "0 \<le> ln (m_ratingCount m + 1)" using assms(5) by simp
  have l1: "ln (m_ratingCount m + 1) \<le> ln 10000" using assms(5,6) by simp
  have a: "0 \<le> a" "a \<le> 1" using assms(1,2) by (simp_all add: a_def)
  have b: "0 \<le> b" "b \<le> 1" using assms(3,4) by (simp_all add: b_def)
  have q: "0 \<le> q" "q \<le> 1" using l0 l1 pos by (simp_all add: q_def)
  have eq: "calculatePopularityScore m = a * 0.4 + b * 0.4 + q * 0.2"
    by (simp add: calculatePopularityScore_def Let_def a_def b_def q_def)
  show ?thesis unfolding eq using a b q by simp
qed

lemma popularityFallback_unit:
  assumes "\<forall>m \<in> set ms. inRange m"
  shows "unitScores (popularityFallback ms src)"
  using assms calculatePopularityScore_range
  by (auto simp: unitScores_def popularityFallback_def inRange_def)

lemma contentBasedRecommendation_unit:
  assumes "\<forall>m \<in> set ms. inRange m"
  shows "unitScores (contentBasedRecommendation ms p)"
proof (cases "preferences p = None \<or> ratingCount p = 0")
  case True
  then have "contentBasedRecommendation ms p = popularityFallback ms ''content-cold''"
    by (auto simp: contentBasedRecommendation_def split: option.splits)
  then show ?thesis using popularityFallback_unit[OF assms] by simp
next
  case False
  then show ?thesis
    by (auto simp: contentBasedRecommendation_def unitScores_def calculateContentSimilarity_def
        Let_def normalizeScore_range split: option.splits)
qed

lemma collaborativeFiltering_unit:
  assumes "\<forall>m \<in> set ms. inRange m"
  shows "unitScores (collaborativeFiltering sv uid ms)"
proof -
  have u: "unitScores (userBasedCollaborativeFiltering sv uid ms)"
    using popularityFallback_unit[OF assms] by (simp add: userBased_cold)
  show ?thesis
    using u by (auto simp: collaborativeFiltering_def unitScores_def normalizeScore_range
        split: sum.splits)
qed

lemma sequenceBasedRecommendation_unit:
  assumes "\<forall>m \<in> set ms. inRange m"
  shows "unitScores (sequenceBasedRecommendation now ms p)"
proof (cases "recentActions p = []")
  case True
  then show ?thesis using popularityFallback_unit[OF assms]
    by (simp add: sequenceBasedRecommendation_def)
next
  case False
  then show ?thesis
    by (auto simp: sequenceBasedRecommendation_def unitScores_def calculateSessionSimilarity_def
        Let_def normalizeScore_range)
qed

lemma ruleBasedRecommendation_unit:
  assumes "\<forall>m \<in> set ms. inRange m"
  shows "unitScores (ruleBasedRecommendation ms p)"
proof (cases "extractRulePreferences p")
  case None
  then show ?thesis using popularityFallback_unit[OF assms]
    by (simp add: ruleBasedRecommendation_def)
next
  case (Some rp)
  then show ?thesis
    by (auto simp: ruleBasedRecommendation_def unitScores_def calculateRuleScore_def
        Let_def normalizeScore_range)
qed

lemma setScore_slots:
  assumes "0 \<le> v" "v \<le> 1" "slotsInUnit e"
  shows "slotsInUnit (setScore key v e)"
  unfolding slotsInUnit_def
proof
  fix key'
  have "0 \<le> getScore key' e \<and> getScore key' e \<le> 1" using assms(3) by (simp add: slotsInUnit_def)
  then show "0 \<le> getScore key' (setScore key v e) \<and> getScore key' (setScore key v e) \<le> 1"
    using assms(1,2) by (cases key; cases key') simp_all
qed

lemma ingestItem_slots:
  assumes "\<forall>ke \<in> set m. slotsInUnit (snd ke)" "0 \<le> s_score item" "s_score item \<le> 1"
  shows "\<forall>ke \<in> set (ingestItem ie key item m). slotsInUnit (snd ke)"
proof (cases "s_movie item")
  case None
  then show ?thesis using assms by (simp add: ingestItem_def)
next
  case (Some mv)
  show ?thesis
  proof
    fix ke assume "ke \<in> set (ingestItem ie key item m)"
    then have "ke \<in> set (upsertScore (s_movieId item)
            \<lparr> h_movieId = s_movieId item, h_movie = mv, contentScore = 0,
              collaborativeScore = 0, sequenceScore = 0, ruleScore = 0,
              explanation = (if ie then Some [] else None) \<rparr>
            (setScore key (s_score item)) m)" (is "_ \<in> set (upsertScore ?k ?fresh ?f m)")
      using Some by (simp add: ingestItem_def)
    then consider (old) "ke \<in> set m" | (new) "ke = (?k, ?f ?fresh)"
      | (upd) e where "(?k, e) \<in> set m" "ke = (?k, ?f e)"
      using upsertScore_cases by blast
    then show "slotsInUnit (snd ke)"
    proof cases
      case old then show ?thesis using assms(1) by blast
    next
      case new
      have "slotsInUnit ?fresh" unfolding slotsInUnit_def
      proof
        fix key' show "0 \<le> getScore key' ?fresh \<and> getScore key' ?fresh \<le> 1"
          by (cases key') simp_all
      qed
      then show ?thesis using new setScore_slots[OF assms(2,3)] by simp
    next
      case upd
      have "slotsInUnit e" using assms(1) upd(1) by force
      then show ?thesis using upd setScore_slots[OF assms(2,3)] by simp
    qed
  qed
qed

lemma ingestScores_slots:
  assumes "\<forall>ke \<in> set m. slotsInUnit (snd ke)" "unitScores scores"
  shows "\<forall>ke \<in> set (ingestScores ie scores key m). slotsInUnit (snd ke)"
  using assms unfolding ingestScores_def
proof (induction scores arbitrary: m)
  case Nil then show ?case by simp
next
  case (Cons x xs)
  have 1: "\<forall>ke \<in> set (ingestItem ie key x m). slotsInUnit (snd ke)"
    using Cons.prems by (intro ingestItem_slots) (auto simp: unitScores_def)
  have 2: "unitScores xs" using Cons.prems(2) by (simp add: unitScores_def)
  show ?case using Cons.IH[OF 1 2] by simp
qed

lemma convex_unit:
  fixes a b c d :: real
  assumes "0 \<le> a \<and> a \<le> 1" "0 \<le> b \<and> b \<le> 1" "0 \<le> c \<and> c \<le> 1" "0 \<le> d \<and> d \<le> 1"
    and "0 \<le> wa" "0 \<le> wb" "0 \<le> wc" "0 \<le> wd" "wa + wb + wc + wd = 1"
  shows "0 \<le> a * wa + b * wb + c * wc + d * wd \<and> a * wa + b * wb + c * wc + d * wd \<le> 1"
proof -
  have "a * wa \<le> wa" "b * wb \<le> wb" "c * wc \<le> wc" "d * wd \<le> wd"
    using assms by (simp_all add: mult_left_le_one_le)
  moreover have "0 \<le> a * wa" "0 \<le> b * wb" "0 \<le> c * wc" "0 \<le> d * wd"
    using assms by simp_all
  ultimately show ?thesis using assms(9) by linarith
qed

lemma combineScores_unit:
  assumes "unitScores cs" "unitScores cl" "unitScores sq" "unitScores rl"
    and "0 \<le> content w" "0 \<le> collaborative w" "0 \<le> sequence w" "0 \<le> rule w"
    and "content w + collaborative w + sequence w + rule w = 1"
    and "r \<in> set (combineScores cs cl sq rl w ie)"
  shows "0 \<le> score r \<and> score r \<le> 1"
proof -
  define m4 where "m4 = ingestScores ie rl RuleKey (ingestScores ie sq SequenceKey
                     (ingestScores ie cl CollaborativeKey (ingestScores ie cs ContentKey [])))"
  have "\<forall>ke \<in> set m4. slotsInUnit (snd ke)"
    unfolding m4_def using assms(1-4) by (intro ingestScores_slots) simp_all
  moreover obtain ke where "ke \<in> set m4" "r = toHybrid w ie (snd ke)"
    using assms(10) by (auto simp: combineScores_def m4_def Let_def)
  ultimately have s: "slotsInUnit (snd ke)" and r: "r = toHybrid w ie (snd ke)" by auto
  have g: "0 \<le> getScore key (snd ke) \<and> getScore key (snd ke) \<le> 1" for key
    using s by (simp add: slotsInUnit_def)
  show ?thesis
    unfolding r toHybrid_fields
    using convex_unit[OF g[of ContentKey, simplified] g[of CollaborativeKey, simplified]
        g[of SequenceKey, simplified] g[of RuleKey, simplified] assms(5-9)]
    by simp
qed


lemma ln_ratio: "ln (1000000::real) / ln 10000 = 3 / 2"
proof -
  have a: "ln (1000000::real) = 6 * ln 10"
    using ln_realpow[of "10::real" 6] by simp
  have b: "ln (10000::real) = 4 * ln 10"
    using ln_realpow[of "10::real" 4] by simp
  have "ln (10::real) > 0" by simp
  then show ?thesis unfolding a b by simp
qed

lemma blockbuster_popularity: "calculatePopularityScore blockbuster = 11 / 10"
  by (simp add: calculatePopularityScore_def blockbuster_def ln_ratio Let_def)

text \<open>
  Claim C2. Scores are meant to lie in \<open>[0,1]\<close>; for a movie of popularity 100, average
  rating 10 and 999999 ratings the popularity fallback gives 1.1, and so does the hybrid score
  for the degenerate profile of a failed read, for which all four strategies fall back.
\<close>

theorem popularityFallback_exceeds_one:
  "map s_score (popularityFallback [blockbuster] ''content-cold'') = [11 / 10]
   \<and> map score (combineScores (popularityFallback [blockbuster] ''content-cold'')
                   (popularityFallback [blockbuster] ''collaborative-cold'')
                   (popularityFallback [blockbuster] ''sequence-cold'')
                   (popularityFallback [blockbuster] ''rule-cold'')
                   (calculateWeights (degenerateProfile ''u1'')) False) = [11 / 10]
   \<and> (11 / 10 :: real) > 1"
  by (simp add: popularityFallback_def blockbuster_popularity combineScores_def ingestScores_def
      ingestItem_def toHybrid_def Let_def calculateWeights_def normalizeWeights_def degenerateProfile_def)

subsection \<open>Diversity filter\<close>

lemma diversityLoop_rescored:
  assumes "0 < df" "\<forall>r \<in> set rs. 0 \<le> score r"
  shows "list_all2 rescored (diversityLoop df rs sg sd) rs"
  using assms(2)
proof (induction rs arbitrary: sg sd)
  case Nil
  then show ?case by simp
next
  case (Cons r rs)
  have nonneg: "0 \<le> score r" using Cons.prems by simp
  have shrink: "score r * (1 - p * df) \<le> score r" if "0 \<le> p" for p
  proof -
    have "0 \<le> score r * (p * df)" using nonneg that assms(1) by simp
    then show ?thesis by (simp add: algebra_simps)
  qed
  have hd: "rescored (r \<lparr> score := score r * (1 - p * df) \<rparr>) r" if "0 \<le> p" for p
    using shrink[OF that] by (simp add: rescored_def)
  have tl: "list_all2 rescored (diversityLoop df rs sg' sd') rs" for sg' sd'
    using Cons.IH Cons.prems by simp
  show ?case
    by (simp add: Let_def tl hd)
qed

text \<open>
  Claim C8. For records with non-negative scores and every diversity factor, the list that
  \<^const>\<open>applyDiversityFilter\<close> returns is, record by record, the input sorted by score
  descending (a permutation of the input) with each score replaced by one that is not larger:
  no record is dropped and no score grows. For a factor that is not positive the input is
  returned as it is.
\<close>

theorem applyDiversityFilter_rescores:
  assumes "\<forall>r \<in> set recommendations. 0 \<le> score r"
  shows "list_all2 rescored (applyDiversityFilter recommendations diversityFactor)
           (if diversityFactor \<le> 0 then recommendations
            else sort_key (\<lambda>r. - score r) recommendations)
         \<and> mset (sort_key (\<lambda>r. - score r) recommendations) = mset recommendations
         \<and> length (applyDiversityFilter recommendations diversityFactor) = length recommendations
         \<and> (diversityFactor \<le> 0 \<longrightarrow>
              applyDiversityFilter recommendations diversityFactor = recommendations)"
proof (cases "diversityFactor \<le> 0")
  case True
  have "list_all2 rescored recommendations recommendations"
    by (simp add: list_all2_refl rescored_def)
  then show ?thesis using True by (simp add: applyDiversityFilter_def)
next
  case False
  then have pos: "0 < diversityFactor" by simp
  have "\<forall>r \<in> set (sort_key (\<lambda>r. - score r) recommendations). 0 \<le> score r"
    using assms by simp
  from diversityLoop_rescored[OF pos this]
  have la: "list_all2 rescored (applyDiversityFilter recommendations diversityFactor)
              (sort_key (\<lambda>r. - score r) recommendations)"
    using False by (simp add: applyDiversityFilter_def)
  from list_all2_lengthD[OF la] show ?thesis using la False by simp
qed

theorem applyDiversityFilter_rescores_witness:
  "0 \<le> score (sampleRecord 1 [''Drama''] 0.6) \<and> 0 \<le> score (sampleRecord 2 [''Drama''] 0.8)
   \<and> list_all2 rescored
         (applyDiversityFilter [sampleRecord 1 [''Drama''] 0.6, sampleRecord 2 [''Drama''] 0.8] 1)
         [sampleRecord 2 [''Drama''] 0.8, sampleRecord 1 [''Drama''] 0.6]
   \<and> map score
         (applyDiversityFilter [sampleRecord 1 [''Drama''] 0.6, sampleRecord 2 [''Drama''] 0.8] 1)
       = [0.8, 0.42]"
proof -
  have h: "\<forall>r \<in> set [sampleRecord 1 [''Drama''] 0.6, sampleRecord 2 [''Drama''] 0.8]. 0 \<le> score r"
    by (simp add: sampleRecord_def)
  have s: "sort_key (\<lambda>r. - score r) [sampleRecord 1 [''Drama''] 0.6, sampleRecord 2 [''Drama''] 0.8]
           = [sampleRecord 2 [''Drama''] 0.8, sampleRecord 1 [''Drama''] 0.6]"
    by (simp add: sampleRecord_def)
  have v: "map score
             (applyDiversityFilter [sampleRecord 1 [''Drama''] 0.6, sampleRecord 2 [''Drama''] 0.8] 1)
           = [0.8, 0.42]"
    by (simp add: applyDiversityFilter_def sampleRecord_def Let_def)
  show ?thesis using h v applyDiversityFilter_rescores[OF h, of 1, unfolded s] by simp
qed

subsection \<open>Cutoff and rank\<close>

lemma slice0_prefix: "prefix (slice0 c xs) xs"
  by (simp add: slice0_def take_is_prefix)

text \<open>
  The cutoff, sort and slice on their own: the result contains only input records of score at
  least \<open>minScore\<close>, is sorted by score descending, keeps records of equal score in their
  input order, and has length at most \<open>count\<close> when \<open>count\<close> is not negative.
\<close>

lemma rankRecommendations_stage:
  "(\<forall>r \<in> set (rankRecommendations minScore cnt ds). score r \<ge> minScore \<and> r \<in> set ds)
   \<and> sorted_wrt (\<lambda>a b. score a \<ge> score b) (rankRecommendations minScore cnt ds)
   \<and> (\<forall>x. prefix (filter (\<lambda>r. score r = x) (rankRecommendations minScore cnt ds))
                   (filter (\<lambda>r. score r = x) ds))
   \<and> (0 \<le> cnt \<longrightarrow> int (length (rankRecommendations minScore cnt ds)) \<le> cnt)"
proof -
  let ?f = "filter (\<lambda>r. score r \<ge> minScore) ds"
  let ?s = "sort_key (\<lambda>r. - score r) ?f"
  let ?out = "rankRecommendations minScore cnt ds"
  have out: "?out = slice0 cnt ?s" by (simp add: rankRecommendations_def)
  have pre: "prefix ?out ?s" unfolding out by (rule slice0_prefix)
  then have sub: "set ?out \<subseteq> set ?s" by (rule set_mono_prefix)
  have 1: "\<forall>r \<in> set ?out. score r \<ge> minScore \<and> r \<in> set ds" using sub by auto
  have "sorted (map (\<lambda>r. - score r) ?s)" by simp
  then have "sorted_wrt (\<lambda>a b. score a \<ge> score b) ?s"
    by (simp add: sorted_wrt_map)
  then have 2: "sorted_wrt (\<lambda>a b. score a \<ge> score b) ?out"
    using pre by (auto simp: prefix_def sorted_wrt_append)
  have 3: "prefix (filter (\<lambda>r. score r = x) ?out) (filter (\<lambda>r. score r = x) ds)" for x
  proof -
    have "filter (\<lambda>r. - score r = - x) ?s = filter (\<lambda>r. - score r = - x) ?f"
      by (rule sort_key_stable)
    then have st: "filter (\<lambda>r. score r = x) ?s = filter (\<lambda>r. score r = x) ?f" by simp
    have "prefix (filter (\<lambda>r. score r = x) ?out) (filter (\<lambda>r. score r = x) ?s)"
      using pre by (rule filter_mono_prefix)
    moreover have "filter (\<lambda>r. score r = x) ?f
                   = (if x \<ge> minScore then filter (\<lambda>r. score r = x) ds else [])"
      by (auto intro: filter_cong simp: filter_empty_conv)
    ultimately show ?thesis by (simp add: st split: if_splits)
  qed
  have 4: "0 \<le> cnt \<longrightarrow> int (length ?out) \<le> cnt"
    by (auto simp: out slice0_def)
  show ?thesis using 1 2 3 4 by blast
qed






subsection \<open>Session grouping\<close>

lemma groupActionsBySessions_finish:
  "groupActionsBySessions actions t = finishSessions (sessionLoop t (sort_key timestamp actions) [] [])"
  by (simp add: groupActionsBySessions_def finishSessions_def)

lemma sessionLoop_concat:
  "concat (finishSessions (sessionLoop t as sessions cur)) = concat sessions @ cur @ as"
  by (induction t as sessions cur rule: sessionLoop.induct) (auto simp: finishSessions_def)

lemma sessionLoop_nonempty:
  "[] \<notin> set sessions \<Longrightarrow> [] \<notin> set (finishSessions (sessionLoop t as sessions cur))"
  by (induction t as sessions cur rule: sessionLoop.induct) (auto simp: finishSessions_def)

lemma sessionLoop_within:
  "\<forall>s \<in> set sessions. successively (withinGap t) s \<Longrightarrow> successively (withinGap t) cur \<Longrightarrow>
   \<forall>s \<in> set (finishSessions (sessionLoop t as sessions cur)). successively (withinGap t) s"
proof (induction as arbitrary: sessions cur)
  case Nil
  then show ?case by (auto simp: finishSessions_def)
next
  case (Cons a as)
  show ?case
  proof (cases "cur = [] \<or> timestamp a - timestamp (last cur) \<le> t")
    case True
    have step: "sessionLoop t (a # as) sessions cur = sessionLoop t as sessions (cur @ [a])"
      using True by auto
    have "successively (withinGap t) (cur @ [a])"
      using Cons.prems(2) True by (auto simp: successively_append_iff withinGap_def)
    then show ?thesis unfolding step using Cons.IH Cons.prems(1) by blast
  next
    case False
    have step: "sessionLoop t (a # as) sessions cur = sessionLoop t as (sessions @ [cur]) [a]"
      using False by auto
    have "\<forall>s \<in> set (sessions @ [cur]). successively (withinGap t) s"
      using Cons.prems by auto
    moreover have "successively (withinGap t) [a]" by simp
    ultimately show ?thesis unfolding step using Cons.IH by blast
  qed
qed

lemma sessionLoop_between:
  "successively (sessionBreak t) (if cur = [] then sessions else sessions @ [cur]) \<Longrightarrow>
   (cur = [] \<longrightarrow> sessions = []) \<Longrightarrow>
   successively (sessionBreak t) (finishSessions (sessionLoop t as sessions cur))"
proof (induction as arbitrary: sessions cur)
  case Nil
  then show ?case by (auto simp: finishSessions_def)
next
  case (Cons a as)
  show ?case
  proof (cases "cur = [] \<or> timestamp a - timestamp (last cur) \<le> t")
    case True
    have step: "sessionLoop t (a # as) sessions cur = sessionLoop t as sessions (cur @ [a])"
      using True by auto
    have "successively (sessionBreak t) (sessions @ [cur @ [a]])"
    proof (cases "cur = []")
      case True
      then show ?thesis using Cons.prems(2) by simp
    next
      case False
      then show ?thesis using Cons.prems(1)
        by (simp add: successively_append_iff sessionBreak_def)
    qed
    then have "successively (sessionBreak t)
                 (if cur @ [a] = [] then sessions else sessions @ [cur @ [a]])" by simp
    then show ?thesis unfolding step by (rule Cons.IH) simp
  next
    case False
    have step: "sessionLoop t (a # as) sessions cur = sessionLoop t as (sessions @ [cur]) [a]"
      using False by auto
    have "successively (sessionBreak t) ((sessions @ [cur]) @ [[a]])"
      using Cons.prems(1) False by (simp add: successively_append_iff sessionBreak_def)
    then have "successively (sessionBreak t)
                 (if [a] = [] then sessions @ [cur] else (sessions @ [cur]) @ [[a]])" by simp
    then show ?thesis unfolding step by (rule Cons.IH) simp
  qed
qed

lemma sorted_concat_member:
  "sorted (map f (concat ss)) \<Longrightarrow> s \<in> set ss \<Longrightarrow> sorted (map f s)"
  by (induction ss) (auto simp: sorted_append)

text \<open>
  Claim C9. For every list of actions and every timeout \<open>t\<close> (30 minutes by default),
  the sessions of \<^const>\<open>groupActionsBySessions\<close> concatenate to the actions sorted by
  timestamp ascending, so they are emitted in chronological order; no session is empty; inside a
  session the timestamps ascend and two adjacent actions are at most \<open>t\<close> apart; and the
  first action of a session is more than \<open>t\<close> after the last action of the session before it.
\<close>

theorem groupActionsBySessions_sessions:
  "concat (groupActionsBySessions actions t) = sort_key timestamp actions
   \<and> (\<forall>s \<in> set (groupActionsBySessions actions t).
         s \<noteq> [] \<and> sorted (map timestamp s) \<and> successively (withinGap t) s)
   \<and> successively (sessionBreak t) (groupActionsBySessions actions t)"
proof -
  let ?g = "groupActionsBySessions actions t"
  have c: "concat ?g = sort_key timestamp actions"
    by (simp add: groupActionsBySessions_finish sessionLoop_concat)
  have n: "[] \<notin> set ?g"
    unfolding groupActionsBySessions_finish by (rule sessionLoop_nonempty) simp
  have w: "\<forall>s \<in> set ?g. successively (withinGap t) s"
    unfolding groupActionsBySessions_finish by (rule sessionLoop_within) simp_all
  have b: "successively (sessionBreak t) ?g"
    unfolding groupActionsBySessions_finish by (rule sessionLoop_between) simp_all
  have "sorted (map timestamp (concat ?g))" by (simp add: c)
  then have s: "\<forall>s \<in> set ?g. sorted (map timestamp s)"
    using sorted_concat_member by blast
  show ?thesis using c n w b s by blast
qed

theorem groupActionsBySessions_sessions_witness:
  "groupActionsBySessions [sampleAction 900000, sampleAction 3600000, sampleAction 0]
       DEFAULT_SESSION_TIMEOUT
     = [[sampleAction 0, sampleAction 900000], [sampleAction 3600000]]
   \<and> successively (sessionBreak DEFAULT_SESSION_TIMEOUT)
         [[sampleAction 0, sampleAction 900000], [sampleAction 3600000]]
   \<and> successively (withinGap DEFAULT_SESSION_TIMEOUT) [sampleAction 0, sampleAction 900000]"
proof -
  have g: "groupActionsBySessions [sampleAction 900000, sampleAction 3600000, sampleAction 0]
             DEFAULT_SESSION_TIMEOUT
           = [[sampleAction 0, sampleAction 900000], [sampleAction 3600000]]"
    by (simp add: groupActionsBySessions_def sampleAction_def DEFAULT_SESSION_TIMEOUT_def)
  show ?thesis
    using groupActionsBySessions_sessions
            [of "[sampleAction 900000, sampleAction 3600000, sampleAction 0]"
                DEFAULT_SESSION_TIMEOUT]
    unfolding g by simp
qed

end
